theory Spec2Isabelle
  imports Complex_Main
begin

section \<open>Exceptions and values\<close>

text \<open>
  The exception classes of \<^verbatim>\<open>sheet.py\<close> and the built-in Python exceptions its
  statements can raise. A function that can raise returns \<open>error + 'a\<close>.
  \<open>OutsideModel\<close> is no exception: it marks a float operation whose result is an
  infinity or nan. The code goes on with that result; the model has no value for it
  and says nothing about what follows.
\<close>

datatype error =
    InvalidA1Notation | InvalidOpcode | ArithmeticError | InvalidArgument
  | IndexError | AssertionError | AttributeError | TypeError | ValueError
  | ZeroDivisionError | EOFError | OutsideModel

text \<open>
  The values a cell or a stack slot holds: a Python \<^verbatim>\<open>float\<close> (a finite double,
  given by the real number it denotes; infinities and nan have no value here), a
  Python \<^verbatim>\<open>int\<close>, or a \<^verbatim>\<open>str\<close>.
\<close>

datatype val = Num real | IntV int | Str string

fun is_float :: "val \<Rightarrow> bool" where
  "is_float (Num x) = True"
| "is_float v = False"

definition bind_err :: "error + 'a \<Rightarrow> ('a \<Rightarrow> error + 'b) \<Rightarrow> error + 'b" where
  "bind_err m f = (case m of Inl e \<Rightarrow> Inl e | Inr x \<Rightarrow> f x)"

section \<open>Coordinate codec\<close>

definition ALPHABET :: string where
  "ALPHABET = ''ABCDEFGHIJKLMNOPQRSTUVWXYZ''"

definition ascii_lowercase :: string where
  "ascii_lowercase = ''abcdefghijklmnopqrstuvwxyz''"

definition digits :: string where
  "digits = ''0123456789''"

text \<open>\<^verbatim>\<open>list.index\<close>: the first position of an element, \<open>None\<close> where Python raises.\<close>

fun index_of :: "'a \<Rightarrow> 'a list \<Rightarrow> nat option" where
  "index_of x [] = None"
| "index_of x (y # ys) = (if x = y then Some 0 else map_option Suc (index_of x ys))"

text \<open>\<^verbatim>\<open>str.upper\<close> and \<^verbatim>\<open>str.lower\<close> on the ASCII letters.\<close>

definition upper_char :: "char \<Rightarrow> char" where
  "upper_char c = (case index_of c ascii_lowercase of Some i \<Rightarrow> ALPHABET ! i | None \<Rightarrow> c)"

definition lower_char :: "char \<Rightarrow> char" where
  "lower_char c = (case index_of c ALPHABET of Some i \<Rightarrow> ascii_lowercase ! i | None \<Rightarrow> c)"

definition upper :: "string \<Rightarrow> string" where
  "upper s = map upper_char s"

definition lower :: "string \<Rightarrow> string" where
  "lower s = map lower_char s"

text \<open>
  \<^verbatim>\<open>_letters_to_numbers\<close>: the loop \<^verbatim>\<open>for c in letters\<close> with its accumulator \<open>n\<close>;
  \<^verbatim>\<open>ALPHABET.index\<close> raises \<^verbatim>\<open>ValueError\<close> on a character that is no letter.
\<close>

fun letters_to_numbers_loop :: "int \<Rightarrow> string \<Rightarrow> error + int" where
  "letters_to_numbers_loop n [] = Inr n"
| "letters_to_numbers_loop n (c # cs) =
     (case index_of (upper_char c) ALPHABET of
        None \<Rightarrow> Inl ValueError
      | Some i \<Rightarrow> letters_to_numbers_loop (n * 26 + (int i + 1)) cs)"

definition letters_to_numbers :: "string \<Rightarrow> error + int" where
  "letters_to_numbers letters = letters_to_numbers_loop 0 letters"

text \<open>\<^verbatim>\<open>ALPHABET[i]\<close>: Python indexing, a negative index counts from the end.\<close>

definition alphabet_at :: "int \<Rightarrow> error + char" where
  "alphabet_at i =
     (let j = (if i < 0 then 26 + i else i)
      in if 0 \<le> j \<and> j < 26 then Inr (ALPHABET ! nat j) else Inl IndexError)"

text \<open>
  \<^verbatim>\<open>_numbers_to_letters\<close>: \<^verbatim>\<open>divmod\<close> is floor division, as \<open>div\<close> and \<open>mod\<close> on
  \<open>int\<close> are for the positive divisor 26.
\<close>

function numbers_to_letters :: "int \<Rightarrow> error + string" where
  "numbers_to_letters numbers =
     (let q = (if numbers mod 26 = 0 then numbers div 26 - 1 else numbers div 26);
          r = (if numbers mod 26 = 0 then 26 else numbers mod 26)
      in if q = 0 then
           (case alphabet_at (r - 1) of Inl e \<Rightarrow> Inl e | Inr b \<Rightarrow> Inr [b])
         else if q \<le> 26 then
           (case alphabet_at (q - 1) of
              Inl e \<Rightarrow> Inl e
            | Inr a \<Rightarrow> (case alphabet_at (r - 1) of Inl e \<Rightarrow> Inl e | Inr b \<Rightarrow> Inr [a, b]))
         else
           (case numbers_to_letters q of
              Inl e \<Rightarrow> Inl e
            | Inr s \<Rightarrow> (case alphabet_at (r - 1) of Inl e \<Rightarrow> Inl e | Inr b \<Rightarrow> Inr (s @ [b]))))"
  by pat_completeness auto
termination
  by (relation "measure nat") (auto split: if_splits)

declare numbers_to_letters.simps [simp del]

text \<open>\<^verbatim>\<open>str\<close> of an \<^verbatim>\<open>int\<close>: its decimal digits, with a minus sign when negative.\<close>

function str_nat :: "nat \<Rightarrow> string" where
  "str_nat n = (if n < 10 then [digits ! n] else str_nat (n div 10) @ [digits ! (n mod 10)])"
  by pat_completeness auto
termination
  by (relation "measure id") auto

declare str_nat.simps [simp del]

definition str_int :: "int \<Rightarrow> string" where
  "str_int i = (if i < 0 then CHR ''-'' # str_nat (nat (- i)) else str_nat (nat i))"

text \<open>\<^verbatim>\<open>int\<close> of a string of decimal digits (the only strings the pattern lets through).\<close>

fun py_int_loop :: "int \<Rightarrow> string \<Rightarrow> error + int" where
  "py_int_loop n [] = Inr n"
| "py_int_loop n (c # cs) =
     (case index_of c digits of
        None \<Rightarrow> Inl ValueError
      | Some d \<Rightarrow> py_int_loop (n * 10 + int d) cs)"

definition py_int :: "string \<Rightarrow> error + int" where
  "py_int s = (if s = [] then Inl ValueError else py_int_loop 0 s)"

text \<open>
  \<^verbatim>\<open>A1_NOTATION = re.compile("^([A-Za-z]+)([0-9]+)$")\<close>, applied with \<^verbatim>\<open>match\<close>: the
  two character classes are disjoint, so the groups are the longest run of letters and
  the longest run of digits after it; \<^verbatim>\<open>$\<close> matches at the end of the string and also
  just before a newline that ends the string.
\<close>

definition is_letter :: "char \<Rightarrow> bool" where
  "is_letter c = (c \<in> set ALPHABET \<or> c \<in> set ascii_lowercase)"

definition is_digit :: "char \<Rightarrow> bool" where
  "is_digit c = (c \<in> set digits)"

definition A1_NOTATION_match :: "string \<Rightarrow> (string \<times> string) option" where
  "A1_NOTATION_match s =
     (let letters = takeWhile is_letter s;
          rest = dropWhile is_letter s;
          numbers = takeWhile is_digit rest;
          tail = dropWhile is_digit rest
      in if letters \<noteq> [] \<and> numbers \<noteq> [] \<and> (tail = [] \<or> tail = [CHR 0x0A])
         then Some (letters, numbers) else None)"

text \<open>
  \<^verbatim>\<open>Sheet.a1_to_index\<close>. The argument is whatever \<^verbatim>\<open>Sheet.read\<close> returned:
  \<^verbatim>\<open>re.match\<close> raises \<^verbatim>\<open>TypeError\<close> on a value that is no string.
\<close>

definition a1_to_index :: "val \<Rightarrow> error + (int \<times> int)" where
  "a1_to_index a1 =
     (case a1 of
        Str s \<Rightarrow>
          (case A1_NOTATION_match s of
             Some (letters, numbers) \<Rightarrow>
               bind_err (letters_to_numbers letters) (\<lambda>c.
               bind_err (py_int numbers) (\<lambda>r. Inr (c, r)))
           | None \<Rightarrow> Inl InvalidA1Notation)
      | _ \<Rightarrow> Inl TypeError)"

text \<open>\<^verbatim>\<open>Sheet.index_to_a1\<close>, with its assertion that both components are positive.\<close>

definition index_to_a1 :: "int \<times> int \<Rightarrow> error + string" where
  "index_to_a1 index =
     (if \<not> (0 < fst index \<and> 0 < snd index) then Inl AssertionError
      else bind_err (numbers_to_letters (fst index)) (\<lambda>s. Inr (s @ str_int (snd index))))"

section \<open>Built-ins outside the repository\<close>

text \<open>
  The Python built-ins the program calls are parameters of the model: \<open>py_float\<close> is
  \<^verbatim>\<open>float\<close> applied to a string (\<^verbatim>\<open>ValueError\<close> where the string is no number) and
  \<open>str_float\<close> is \<^verbatim>\<open>str\<close> applied to a float. The operators \<^verbatim>\<open>+\<close>, \<^verbatim>\<open>-\<close>,
  \<^verbatim>\<open>*\<close>, \<^verbatim>\<open>/\<close> and \<^verbatim>\<open>%\<close> on two floats are \<open>float_add\<close>, \<open>float_sub\<close>,
  \<open>float_mul\<close>, \<open>float_truediv\<close> and \<open>float_mod\<close>: the result is the double the
  operator returns, rounded as IEEE arithmetic rounds it (so not the exact sum or
  quotient in general), and \<open>None\<close> when it is an infinity or nan. The random sources
  give the result of the \<open>k\<close>-th draw: \<^verbatim>\<open>random.random()\<close>,
  \<^verbatim>\<open>random.uniform(a, b)\<close> and the \<^verbatim>\<open>randbelow\<close> behind \<^verbatim>\<open>random.randint\<close>.
  Every theorem below holds for every such environment.
\<close>

record pyenv =
  py_float :: "string \<Rightarrow> error + real"
  str_float :: "real \<Rightarrow> string"
  float_add :: "real \<Rightarrow> real \<Rightarrow> real option"
  float_sub :: "real \<Rightarrow> real \<Rightarrow> real option"
  float_mul :: "real \<Rightarrow> real \<Rightarrow> real option"
  float_truediv :: "real \<Rightarrow> real \<Rightarrow> real option"
  float_mod :: "real \<Rightarrow> real \<Rightarrow> real option"
  random_random :: "nat \<Rightarrow> real"
  random_uniform :: "nat \<Rightarrow> real \<Rightarrow> real \<Rightarrow> real option"
  randbelow :: "nat \<Rightarrow> int \<Rightarrow> int"

text \<open>\<^verbatim>\<open>str(val)\<close>.\<close>

fun py_str :: "pyenv \<Rightarrow> val \<Rightarrow> string" where
  "py_str E (Num x) = str_float E x"
| "py_str E (IntV i) = str_int i"
| "py_str E (Str s) = s"

text \<open>\<^verbatim>\<open>_safe_float\<close>: any exception of \<^verbatim>\<open>float\<close> becomes \<^verbatim>\<open>None\<close>.\<close>

definition safe_float :: "pyenv \<Rightarrow> string \<Rightarrow> real option" where
  "safe_float E n = (case py_float E n of Inl e \<Rightarrow> None | Inr x \<Rightarrow> Some x)"

section \<open>Sheet\<close>

type_synonym sheet = "int \<times> int \<Rightarrow> val option"

text \<open>
  \<^verbatim>\<open>Sheet.interpret_value\<close>. The test \<^verbatim>\<open>if (n:=_safe_float(val))\<close> is a truth test:
  it fails for \<^verbatim>\<open>None\<close> and also for the float zero.
\<close>

definition interpret_value :: "pyenv \<Rightarrow> val \<Rightarrow> val" where
  "interpret_value E v =
     (let s = py_str E v
      in case safe_float E s of
           None \<Rightarrow> Str s
         | Some n \<Rightarrow> if n \<noteq> 0 then Num n else Str s)"

definition read :: "pyenv \<Rightarrow> sheet \<Rightarrow> int \<times> int \<Rightarrow> val \<Rightarrow> val" where
  "read E sh index dflt =
     interpret_value E (case sh index of None \<Rightarrow> dflt | Some v \<Rightarrow> v)"

text \<open>\<^verbatim>\<open>Sheet.write\<close> (\<open>write\<close> is a keyword of Isabelle).\<close>

definition write_cell :: "pyenv \<Rightarrow> sheet \<Rightarrow> int \<times> int \<Rightarrow> val \<Rightarrow> sheet" where
  "write_cell E sh index v = sh(index \<mapsto> interpret_value E v)"

section \<open>Stack\<close>

text \<open>
  \<^verbatim>\<open>Stack\<close>: the values (bottom first) and the frame boundaries. A boundary is
  \<^verbatim>\<open>len(values) - args\<close>, where \<^verbatim>\<open>args\<close> is the int 0 or a float read from a cell, so
  the boundaries are numbers, not necessarily whole. The fields are \<open>svalues\<close> and
  \<open>sframes\<close> for \<^verbatim>\<open>values\<close> and \<^verbatim>\<open>frames\<close> (\<open>values\<close> is a keyword of Isabelle).
\<close>

record stack =
  svalues :: "val list"
  sframes :: "real list"

definition push :: "stack \<Rightarrow> val \<Rightarrow> stack" where
  "push st v = st\<lparr>svalues := svalues st @ [v]\<rparr>"

definition pop :: "stack \<Rightarrow> error + (val \<times> stack)" where
  "pop st =
     (if sframes st \<noteq> [] \<and> real (length (svalues st)) \<le> last (sframes st)
      then Inl IndexError
      else if svalues st = [] then Inl IndexError
      else Inr (last (svalues st), st\<lparr>svalues := butlast (svalues st)\<rparr>))"

text \<open>
  \<^verbatim>\<open>Stack.popn\<close>: both assertions, then the slice \<^verbatim>\<open>values[-n:]\<close>, which for
  \<^verbatim>\<open>n = 0\<close> is the whole list.
\<close>

definition popn :: "stack \<Rightarrow> nat \<Rightarrow> error + (val list \<times> stack)" where
  "popn st n =
     (let len = length (svalues st)
      in if sframes st \<noteq> [] \<and> \<not> (of_int (int len - int n + 1) > last (sframes st))
         then Inl AssertionError
         else if \<not> (len \<ge> n) then Inl AssertionError
         else if n = 0 then Inr (svalues st, st\<lparr>svalues := []\<rparr>)
         else Inr (drop (len - n) (svalues st), st\<lparr>svalues := take (len - n) (svalues st)\<rparr>))"

definition push_frame :: "stack \<Rightarrow> real \<Rightarrow> error + stack" where
  "push_frame st args =
     (let frametop = real (length (svalues st)) - args
      in if sframes st \<noteq> [] then
           (if frametop \<ge> last (sframes st)
            then Inr (st\<lparr>sframes := sframes st @ [frametop]\<rparr>) else Inl AssertionError)
         else
           (if frametop \<ge> 0
            then Inr (st\<lparr>sframes := sframes st @ [frametop]\<rparr>) else Inl AssertionError))"

definition pop_frame :: "stack \<Rightarrow> stack" where
  "pop_frame st = (if sframes st \<noteq> [] then st\<lparr>sframes := butlast (sframes st)\<rparr> else st)"

text \<open>
  \<^verbatim>\<open>Stack.peek\<close>. The boundary it reads is \<^verbatim>\<open>self.frames[1]\<close>, the second entry of
  the frame list, which raises \<^verbatim>\<open>IndexError\<close> when there is exactly one frame.
\<close>

definition peek :: "stack \<Rightarrow> nat \<Rightarrow> error + val" where
  "peek st n =
     (let index = int (length (svalues st)) - int n
      in if sframes st \<noteq> [] \<and> length (sframes st) < 2 then Inl IndexError
         else if sframes st \<noteq> [] \<and> of_int index \<le> sframes st ! 1 then Inl IndexError
         else if index < 0 then Inl IndexError
         else if index \<ge> int (length (svalues st)) then Inl IndexError
         else Inr (svalues st ! nat index))"

section \<open>Comparison and arithmetic of values\<close>

fun num_of :: "val \<Rightarrow> real option" where
  "num_of (Num x) = Some x"
| "num_of (IntV i) = Some (of_int i)"
| "num_of (Str s) = None"

text \<open>The order of Python strings: lexicographic on the code points.\<close>

fun str_lt :: "string \<Rightarrow> string \<Rightarrow> bool" where
  "str_lt s [] = False"
| "str_lt [] (y # ys) = True"
| "str_lt (x # xs) (y # ys) =
     ((of_char x :: nat) < of_char y \<or> (x = y \<and> str_lt xs ys))"

text \<open>
  \<^verbatim>\<open>==\<close> never raises: a number and a string are unequal. \<^verbatim>\<open><\<close> and \<^verbatim>\<open>>\<close> raise
  \<^verbatim>\<open>TypeError\<close> between a number and a string.
\<close>

definition py_eq :: "val \<Rightarrow> val \<Rightarrow> bool" where
  "py_eq a b =
     (case (a, b) of
        (Str s, Str t) \<Rightarrow> s = t
      | _ \<Rightarrow> (case (num_of a, num_of b) of (Some x, Some y) \<Rightarrow> x = y | _ \<Rightarrow> False))"

definition py_lt :: "val \<Rightarrow> val \<Rightarrow> error + bool" where
  "py_lt a b =
     (case (a, b) of
        (Str s, Str t) \<Rightarrow> Inr (str_lt s t)
      | _ \<Rightarrow> (case (num_of a, num_of b) of
                (Some x, Some y) \<Rightarrow> Inr (x < y)
              | _ \<Rightarrow> Inl TypeError))"

definition py_gt :: "val \<Rightarrow> val \<Rightarrow> error + bool" where
  "py_gt a b =
     (case (a, b) of
        (Str s, Str t) \<Rightarrow> Inr (str_lt t s)
      | _ \<Rightarrow> (case (num_of a, num_of b) of
                (Some x, Some y) \<Rightarrow> Inr (x > y)
              | _ \<Rightarrow> Inl TypeError))"

text \<open>The result of a float operation: a finite double, or outside the model.\<close>

definition float_result :: "real option \<Rightarrow> error + real" where
  "float_result r = (case r of None \<Rightarrow> Inl OutsideModel | Some x \<Rightarrow> Inr x)"

text \<open>
  \<^verbatim>\<open>/\<close> and \<^verbatim>\<open>%\<close> on floats raise \<^verbatim>\<open>ZeroDivisionError\<close> on a zero divisor, before
  anything is computed.
\<close>

definition py_truediv :: "pyenv \<Rightarrow> real \<Rightarrow> real \<Rightarrow> error + real" where
  "py_truediv E x y =
     (if y = 0 then Inl ZeroDivisionError else float_result (float_truediv E x y))"

definition py_mod :: "pyenv \<Rightarrow> real \<Rightarrow> real \<Rightarrow> error + real" where
  "py_mod E x y =
     (if y = 0 then Inl ZeroDivisionError else float_result (float_mod E x y))"

text \<open>\<^verbatim>\<open>int(x)\<close> of a float truncates towards zero.\<close>

definition py_trunc :: "real \<Rightarrow> int" where
  "py_trunc x = (if x \<ge> 0 then \<lfloor>x\<rfloor> else \<lceil>x\<rceil>)"

definition is_space :: "char \<Rightarrow> bool" where
  "is_space c =
     (c \<in> set [CHR '' '', CHR 0x09, CHR 0x0A, CHR 0x0B, CHR 0x0C, CHR 0x0D,
               CHR 0x1C, CHR 0x1D, CHR 0x1E, CHR 0x1F])"

definition rstrip :: "string \<Rightarrow> string" where
  "rstrip s = rev (dropWhile is_space (rev s))"

section \<open>Interpreter\<close>

text \<open>
  The interpreter's attributes, with the console as two lists (the lines still to be
  read, the text written so far) and the number of random draws made.
\<close>

record state =
  sheet :: sheet
  ip :: "int \<times> int"
  stack :: stack
  cond :: bool
  ret_stack :: "(int \<times> int) list"
  stdin :: "string list"
  stdout :: "string list"
  draws :: nat

text \<open>\<^verbatim>\<open>Interpreter.__init__\<close> with the default start, followed by \<^verbatim>\<open>reset\<close>.\<close>

definition interpreter :: "sheet \<Rightarrow> state" where
  "interpreter sh =
     \<lparr>sheet = sh, ip = (1, 1), stack = \<lparr>svalues = [], sframes = []\<rparr>, cond = False,
      ret_stack = [], stdin = [], stdout = [], draws = 0\<rparr>"

definition argument :: "int \<times> int \<Rightarrow> int \<Rightarrow> error + (int \<times> int)" where
  "argument index n =
     (if \<not> (0 < fst index \<and> 0 < snd index) then Inl AssertionError
      else Inr (fst index + n, snd index))"

text \<open>
  A handler returns the new state and whether it returned a true value (then the loop
  does not advance the instruction pointer).
\<close>

type_synonym handler = "pyenv \<Rightarrow> state \<Rightarrow> error + (bool \<times> state)"

text \<open>\<^verbatim>\<open>Sheet.a1_to_index(self.sheet.read(self.argument(ip,1)))\<close>, the shared first line.\<close>

definition arg1_address :: "pyenv \<Rightarrow> state \<Rightarrow> error + (int \<times> int)" where
  "arg1_address E st =
     bind_err (argument (ip st) 1) (\<lambda>a. a1_to_index (read E (sheet st) a (Str [])))"

definition do_LOAD_CELL :: handler where
  "do_LOAD_CELL E st =
     bind_err (arg1_address E st) (\<lambda>address.
       Inr (False, st\<lparr>stack := push (stack st) (read E (sheet st) address (Str []))\<rparr>))"

definition do_STORE_CELL :: handler where
  "do_STORE_CELL E st =
     bind_err (arg1_address E st) (\<lambda>address.
     bind_err (pop (stack st)) (\<lambda>(v, stk).
       Inr (False, st\<lparr>stack := stk, sheet := write_cell E (sheet st) address v\<rparr>)))"

definition do_DROP :: handler where
  "do_DROP E st = bind_err (pop (stack st)) (\<lambda>(v, stk). Inr (False, st\<lparr>stack := stk\<rparr>))"

definition do_DUP :: handler where
  "do_DUP E st =
     bind_err (peek (stack st) 1) (\<lambda>v. Inr (False, st\<lparr>stack := push (stack st) v\<rparr>))"

definition do_OVER :: handler where
  "do_OVER E st =
     bind_err (peek (stack st) 2) (\<lambda>v. Inr (False, st\<lparr>stack := push (stack st) v\<rparr>))"

definition do_SWAP :: handler where
  "do_SWAP E st =
     bind_err (popn (stack st) 2) (\<lambda>(items, stk).
       Inr (False, st\<lparr>stack := foldl push stk (rev items)\<rparr>))"

text \<open>\<^verbatim>\<open>_binary_arithmetic_check\<close>: the test is \<^verbatim>\<open>type(item)==float\<close>.\<close>

definition binary_arithmetic_check :: "stack \<Rightarrow> error + (val list \<times> stack)" where
  "binary_arithmetic_check stk =
     bind_err (popn stk 2) (\<lambda>(items, stk').
       if \<not> list_all is_float items then Inl ArithmeticError else Inr (items, stk'))"

text \<open>
  The six arithmetic handlers unpack \<^verbatim>\<open>item1,item2\<close> from the checked list and push
  the result of the operator; \<open>binop\<close> is that common shape, the operator the only
  difference between them.
\<close>

definition binop :: "(real \<Rightarrow> real \<Rightarrow> error + real) \<Rightarrow> state \<Rightarrow> error + (bool \<times> state)" where
  "binop f st =
     bind_err (binary_arithmetic_check (stack st)) (\<lambda>(items, stk).
       case items of
         [Num item1, Num item2] \<Rightarrow>
           bind_err (f item1 item2) (\<lambda>r. Inr (False, st\<lparr>stack := push stk (Num r)\<rparr>))
       | _ \<Rightarrow> Inl ValueError)"

definition do_ADD :: handler where
  "do_ADD E st = binop (\<lambda>item1 item2. float_result (float_add E item1 item2)) st"

definition do_SUB :: handler where
  "do_SUB E st = binop (\<lambda>item1 item2. float_result (float_sub E item1 item2)) st"

definition do_MULT :: handler where
  "do_MULT E st = binop (\<lambda>item1 item2. float_result (float_mul E item1 item2)) st"

definition do_DIV :: handler where
  "do_DIV E st = binop (\<lambda>item1 item2. py_truediv E item1 item2) st"

definition do_FDIV :: handler where
  "do_FDIV E st = binop (\<lambda>item1 item2. py_truediv E item1 item2) st"

definition do_MOD :: handler where
  "do_MOD E st = binop (\<lambda>item1 item2. py_mod E item1 item2) st"

definition do_UPPER :: handler where
  "do_UPPER E st =
     bind_err (pop (stack st)) (\<lambda>(v, stk).
       Inr (False, st\<lparr>stack := push stk (Str (upper (py_str E v)))\<rparr>))"

definition do_LOWER :: handler where
  "do_LOWER E st =
     bind_err (pop (stack st)) (\<lambda>(v, stk).
       Inr (False, st\<lparr>stack := push stk (Str (lower (py_str E v)))\<rparr>))"

definition do_CONCAT :: handler where
  "do_CONCAT E st =
     bind_err (popn (stack st) 2) (\<lambda>(items, stk).
       case map (py_str E) items of
         [item1, item2] \<Rightarrow>
           Inr (False, st\<lparr>stack := push stk (interpret_value E (Str (item1 @ item2)))\<rparr>)
       | _ \<Rightarrow> Inl ValueError)"

text \<open>
  \<^verbatim>\<open>do_IN\<close>: \<^verbatim>\<open>rstrip\<close> exists on strings only; \<^verbatim>\<open>input\<close> writes the prompt and
  raises \<^verbatim>\<open>EOFError\<close> when there is no line left.
\<close>

definition do_IN :: handler where
  "do_IN E st =
     bind_err (argument (ip st) 1) (\<lambda>a.
       case read E (sheet st) a (Str []) of
         Str p \<Rightarrow>
           (case stdin st of
              [] \<Rightarrow> Inl EOFError
            | line # rest \<Rightarrow>
                Inr (False, st\<lparr>stack := push (stack st) (interpret_value E (Str line)),
                                stdin := rest,
                                stdout := stdout st @ [rstrip p @ [CHR 0x20]]\<rparr>))
       | _ \<Rightarrow> Inl AttributeError)"

definition do_OUT :: handler where
  "do_OUT E st =
     bind_err (pop (stack st)) (\<lambda>(v, stk).
       Inr (False, st\<lparr>stack := stk, stdout := stdout st @ [py_str E v @ [CHR 0x0A]]\<rparr>))"

definition do_TEST :: handler where
  "do_TEST E st =
     bind_err (peek (stack st) 1) (\<lambda>v. Inr (False, st\<lparr>cond := py_eq v (IntV 0)\<rparr>))"

text \<open>
  \<^verbatim>\<open>do_COMPARE\<close>, \<^verbatim>\<open>do_LT\<close>, \<^verbatim>\<open>do_GT\<close> differ in the operator only. The read of
  argument 1 is outside the \<^verbatim>\<open>try\<close>; inside it are the address resolution, the read
  of the addressed cell, \<^verbatim>\<open>peek(1)\<close> and the comparison; the bare \<^verbatim>\<open>except\<close> catches
  whatever any of them raises and runs the comparison of \<^verbatim>\<open>peek(2)\<close> with
  \<^verbatim>\<open>peek(1)\<close>, whose own exceptions propagate.
\<close>

definition compare_with :: "(val \<Rightarrow> val \<Rightarrow> error + bool) \<Rightarrow> pyenv \<Rightarrow> state \<Rightarrow> error + (bool \<times> state)" where
  "compare_with cmp E st =
     bind_err (argument (ip st) 1) (\<lambda>a.
       let address = read E (sheet st) a (Str [])
       in case bind_err (a1_to_index address) (\<lambda>address'.
                 let v = read E (sheet st) address' (Str [])
                 in bind_err (peek (stack st) 1) (\<lambda>tos. cmp tos v)) of
            Inr b \<Rightarrow> Inr (False, st\<lparr>cond := b\<rparr>)
          | Inl e \<Rightarrow>
              bind_err (peek (stack st) 2) (\<lambda>x.
              bind_err (peek (stack st) 1) (\<lambda>y.
              bind_err (cmp x y) (\<lambda>b. Inr (False, st\<lparr>cond := b\<rparr>)))))"

definition do_COMPARE :: handler where
  "do_COMPARE E st = compare_with (\<lambda>a b. Inr (py_eq a b)) E st"

definition do_LT :: handler where
  "do_LT E st = compare_with py_lt E st"

definition do_GT :: handler where
  "do_GT E st = compare_with py_gt E st"

definition do_INVERT_COND :: handler where
  "do_INVERT_COND E st = Inr (False, st\<lparr>cond := \<not> cond st\<rparr>)"

definition do_JUMP :: handler where
  "do_JUMP E st = bind_err (arg1_address E st) (\<lambda>address. Inr (True, st\<lparr>ip := address\<rparr>))"

definition do_JUMP_IF :: handler where
  "do_JUMP_IF E st = (if cond st then do_JUMP E st else Inr (False, st))"

text \<open>
  \<^verbatim>\<open>do_CALL\<close>: the argument count is read with the default 0; a string becomes 0, so
  what reaches \<^verbatim>\<open>push_frame\<close> is 0 or a float.
\<close>

definition do_CALL :: handler where
  "do_CALL E st =
     bind_err (arg1_address E st) (\<lambda>address.
     bind_err (argument (ip st) 2) (\<lambda>a2.
       let args = (case read E (sheet st) a2 (IntV 0) of
                     Str s \<Rightarrow> 0 | Num x \<Rightarrow> x | IntV i \<Rightarrow> of_int i)
       in bind_err (push_frame (stack st) args) (\<lambda>stk.
            Inr (True, st\<lparr>stack := stk, ret_stack := ret_stack st @ [ip st],
                          ip := address\<rparr>))))"

definition do_CALL_IF :: handler where
  "do_CALL_IF E st = (if cond st then do_CALL E st else Inr (False, st))"

definition do_RETURN :: handler where
  "do_RETURN E st =
     (if ret_stack st = [] then Inl IndexError
      else Inr (False, st\<lparr>ip := last (ret_stack st), ret_stack := butlast (ret_stack st),
                          stack := pop_frame (stack st)\<rparr>))"

text \<open>
  \<^verbatim>\<open>random.random()\<close> and \<^verbatim>\<open>random.uniform(m,n)\<close> are the next draw of the
  environment, and \<^verbatim>\<open>random.randint(a,b)\<close> is \<^verbatim>\<open>a + randbelow(b-a+1)\<close>, a
  \<^verbatim>\<open>ValueError\<close> on an empty range and a \<^verbatim>\<open>TypeError\<close> when \<^verbatim>\<open>b\<close> is \<^verbatim>\<open>None\<close>.
\<close>

definition do_RAND :: handler where
  "do_RAND E st =
     bind_err (argument (ip st) 1) (\<lambda>a1.
     bind_err (argument (ip st) 2) (\<lambda>a2.
       let m = (case read E (sheet st) a1 (IntV 0) of Num x \<Rightarrow> x | _ \<Rightarrow> 0);
           n = (case read E (sheet st) a2 (IntV 1) of Num x \<Rightarrow> x | _ \<Rightarrow> 1);
           r = (if m = 0 \<and> n = 1 then Inr (random_random E (draws st))
                else float_result (random_uniform E (draws st) m n))
       in bind_err r (\<lambda>x.
            Inr (False, st\<lparr>stack := push (stack st) (Num x), draws := draws st + 1\<rparr>))))"

definition randint :: "pyenv \<Rightarrow> nat \<Rightarrow> int \<Rightarrow> int option \<Rightarrow> error + int" where
  "randint E k a b =
     (case b of
        None \<Rightarrow> Inl TypeError
      | Some b' \<Rightarrow>
          if b' < a then Inl ValueError
          else Inr (a + randbelow E k (b' - a + 1) mod (b' - a + 1)))"

definition do_RANDINT :: handler where
  "do_RANDINT E st =
     bind_err (argument (ip st) 1) (\<lambda>a1.
     bind_err (argument (ip st) 2) (\<lambda>a2.
       case read E (sheet st) a1 (Str []) of
         Num x \<Rightarrow>
           let m = py_trunc x;
               n = (case read E (sheet st) a2 (Str []) of
                      Num y \<Rightarrow> Some (py_trunc y) | _ \<Rightarrow> None);
               swap = (m \<noteq> 0 \<and> (n = None \<or> n = Some 0));
               m' = (if swap then 1 else m);
               n' = (if swap then Some m else n)
           in bind_err (randint E (draws st) m' n') (\<lambda>r.
                Inr (False, st\<lparr>stack := push (stack st) (IntV r), draws := draws st + 1\<rparr>))
       | _ \<Rightarrow> Inl InvalidArgument))"

text \<open>
  \<^verbatim>\<open>getattr(self,"do_"+name)\<close>: the attributes of an \<^verbatim>\<open>Interpreter\<close> whose names
  start with \<^verbatim>\<open>do_\<close> are its handlers; for any other name \<^verbatim>\<open>getattr\<close>, called with
  no default, raises \<^verbatim>\<open>AttributeError\<close> (\<open>None\<close> here).
\<close>

definition methods :: "(string \<times> handler) list" where
  "methods =
     [(''LOAD_CELL'', do_LOAD_CELL), (''STORE_CELL'', do_STORE_CELL),
      (''DROP'', do_DROP), (''DUP'', do_DUP), (''OVER'', do_OVER), (''SWAP'', do_SWAP),
      (''ADD'', do_ADD), (''SUB'', do_SUB), (''MULT'', do_MULT), (''DIV'', do_DIV),
      (''FDIV'', do_FDIV), (''MOD'', do_MOD),
      (''UPPER'', do_UPPER), (''LOWER'', do_LOWER), (''CONCAT'', do_CONCAT),
      (''IN'', do_IN), (''OUT'', do_OUT),
      (''TEST'', do_TEST), (''COMPARE'', do_COMPARE), (''LT'', do_LT), (''GT'', do_GT),
      (''INVERT_COND'', do_INVERT_COND), (''JUMP'', do_JUMP), (''JUMP_IF'', do_JUMP_IF),
      (''CALL'', do_CALL), (''CALL_IF'', do_CALL_IF), (''RETURN'', do_RETURN),
      (''RAND'', do_RAND), (''RANDINT'', do_RANDINT)]"

definition getattr_do :: "string \<Rightarrow> handler option" where
  "getattr_do name = map_of methods name"

text \<open>A bound method is true in a truth test, whichever method it is.\<close>

definition truth_of_method :: "handler \<Rightarrow> bool" where
  "truth_of_method m = True"

text \<open>
  One pass of the \<^verbatim>\<open>while True\<close> of \<^verbatim>\<open>Interpreter.run\<close>: \<open>Inl\<close> is an exception,
  \<open>Inr (Inl st)\<close> the \<^verbatim>\<open>return\<close>, \<open>Inr (Inr st)\<close> the state the next pass starts from.
\<close>

definition step :: "pyenv \<Rightarrow> state \<Rightarrow> error + (state + state)" where
  "step E st =
     (case read E (sheet st) (ip st) (Str ''HALT'') of
        Str opcode \<Rightarrow>
          if opcode = ''HALT'' then Inr (Inl st)
          else
            (case getattr_do (upper opcode) of
               None \<Rightarrow> Inl AttributeError
             | Some method \<Rightarrow>
                 if \<not> truth_of_method method then Inl InvalidOpcode
                 else bind_err (method E st) (\<lambda>(jumped, st').
                        if \<not> jumped then Inr (Inr (st'\<lparr>ip := (fst (ip st'), snd (ip st') + 1)\<rparr>))
                        else Inr (Inr st')))
      | _ \<Rightarrow> Inr (Inl st))"

text \<open>
  \<^verbatim>\<open>Interpreter.run\<close>. The loop may run forever, so the model counts passes: \<open>None\<close>
  means that the loop is still running after \<open>fuel\<close> passes.
\<close>

fun run :: "pyenv \<Rightarrow> nat \<Rightarrow> state \<Rightarrow> (error + state) option" where
  "run E 0 st = None"
| "run E (Suc fuel) st =
     (case step E st of
        Inl e \<Rightarrow> Some (Inl e)
      | Inr (Inl st') \<Rightarrow> Some (Inr st')
      | Inr (Inr st') \<Rightarrow> run E fuel st')"

section \<open>A sample environment and sample programs\<close>

text \<open>
  An environment to evaluate examples in. Its \<open>py_float\<close> reads an optional minus
  sign, digits and an optional fraction, and its \<open>str_float\<close> prints a float with
  few decimals the way Python does (\<^verbatim>\<open>5.0\<close>, \<^verbatim>\<open>3.14\<close>); on these inputs they agree
  with the built-ins. Its float operators compute without rounding, which is what the
  built-ins do on the small whole numbers of the examples (\<^verbatim>\<open>2.0 + 3.0\<close> is
  \<^verbatim>\<open>5.0\<close>). The random sources always draw 0.
\<close>

definition sample_float :: "string \<Rightarrow> error + real" where
  "sample_float s =
     (let neg = (s \<noteq> [] \<and> hd s = CHR ''-'');
          body = (if neg then tl s else s);
          whole = takeWhile is_digit body;
          rest = dropWhile is_digit body;
          sign = (if neg then - 1 else 1)
      in if whole = [] then Inl ValueError
         else if rest = [] then
           bind_err (py_int_loop 0 whole) (\<lambda>i. Inr (sign * of_int i))
         else if hd rest = CHR ''.'' \<and> tl rest \<noteq> [] \<and> list_all is_digit (tl rest) then
           bind_err (py_int_loop 0 whole) (\<lambda>i.
           bind_err (py_int_loop 0 (tl rest)) (\<lambda>f.
             Inr (sign * (of_int i + of_int f / 10 ^ length (tl rest)))))
         else Inl ValueError)"

fun frac_digits :: "nat \<Rightarrow> real \<Rightarrow> string" where
  "frac_digits 0 x = []"
| "frac_digits (Suc k) x =
     (if x = 0 then []
      else (digits ! nat \<lfloor>x * 10\<rfloor>) # frac_digits k (x * 10 - of_int \<lfloor>x * 10\<rfloor>))"

definition sample_str_float :: "real \<Rightarrow> string" where
  "sample_str_float x =
     (let a = \<bar>x\<bar>; w = \<lfloor>a\<rfloor>; f = a - of_int w
      in (if x < 0 then ''-'' else []) @ str_nat (nat w) @ ''.'' @
         (if f = 0 then ''0'' else frac_digits 17 f))"

definition sample_env :: pyenv where
  "sample_env =
     \<lparr>py_float = sample_float, str_float = sample_str_float,
      float_add = (\<lambda>x y. Some (x + y)), float_sub = (\<lambda>x y. Some (x - y)),
      float_mul = (\<lambda>x y. Some (x * y)), float_truediv = (\<lambda>x y. Some (x / y)),
      float_mod = (\<lambda>x y. Some (x - y * of_int \<lfloor>x / y\<rfloor>)),
      random_random = (\<lambda>k. 0), random_uniform = (\<lambda>k m n. Some m),
      randbelow = (\<lambda>k n. 0)\<rparr>"

text \<open>What a test observes of the outcome of a run.\<close>

definition observe :: "(error + state) option \<Rightarrow> (error + (int \<times> int) \<times> val list \<times> real list \<times> (int \<times> int) list \<times> bool) option" where
  "observe r =
     map_option (map_sum id (\<lambda>st.
       (ip st, svalues (stack st), sframes (stack st), ret_stack st, cond st))) r"

definition with_stack :: "state \<Rightarrow> val list \<Rightarrow> real list \<Rightarrow> state" where
  "with_stack st vs fs = st\<lparr>stack := \<lparr>svalues = vs, sframes = fs\<rparr>\<rparr>"

text \<open>A program that is the single instruction \<^verbatim>\<open>RANDINT 6\<close>, over the stack \<^verbatim>\<open>[2.0]\<close>.\<close>

definition randint_state :: state where
  "randint_state =
     with_stack (interpreter [(1, 1) \<mapsto> Str ''RANDINT'', (2, 1) \<mapsto> Num 6]) [Num 2] []"

text \<open>One-cell programs: the cell A1 holds the given value.\<close>

definition one_cell :: "val \<Rightarrow> state" where
  "one_cell v = interpreter [(1, 1) \<mapsto> v]"

text \<open>
  Loading cells the way \<^verbatim>\<open>load_csv\<close> does, one \<^verbatim>\<open>write\<close> of a text field per cell.
\<close>

definition load_cells :: "pyenv \<Rightarrow> ((int \<times> int) \<times> string) list \<Rightarrow> sheet" where
  "load_cells E cells = foldl (\<lambda>sh (index, field). write_cell E sh index (Str field)) Map.empty cells"

text \<open>
  The subroutine scenario: \<^verbatim>\<open>CALL B1 1\<close> in row 2, \<^verbatim>\<open>RETURN\<close> in cell B1, the run
  started at A2 over the stack \<^verbatim>\<open>[10.0]\<close>.
\<close>

definition call_state :: state where
  "call_state =
     (with_stack
        (interpreter (load_cells sample_env
           [((2, 1), ''RETURN''), ((1, 2), ''CALL''), ((2, 2), ''B1''), ((3, 2), ''1'')]))
        [Num 10] [])\<lparr>ip := (1, 2)\<rparr>"

text \<open>
  Comparison scenarios over the stack \<^verbatim>\<open>[1.0, 2.0]\<close>: the opcode in A1, its operand
  in B1, and the cell B5 that the operand \<^verbatim>\<open>B5\<close> addresses.
\<close>

definition compare_state :: "string \<Rightarrow> string \<Rightarrow> string \<Rightarrow> state" where
  "compare_state opcode operand b5 =
     with_stack
       (interpreter (load_cells sample_env
          [((1, 1), opcode), ((2, 1), operand), ((2, 5), b5)]))
       [Num 1, Num 2] []"

text \<open>
  The comparison handlers as the specification words them, for comparison with
  \<open>compare_with\<close>: the fallback is taken when, and only when, the resolution of
  argument 1 as an address fails; any other exception ends the run.
\<close>

definition compare_with_as_claimed :: "(val \<Rightarrow> val \<Rightarrow> error + bool) \<Rightarrow> pyenv \<Rightarrow> state \<Rightarrow> error + (bool \<times> state)" where
  "compare_with_as_claimed cmp E st =
     bind_err (argument (ip st) 1) (\<lambda>a.
       case a1_to_index (read E (sheet st) a (Str [])) of
         Inr address' \<Rightarrow>
           bind_err (peek (stack st) 1) (\<lambda>tos.
           bind_err (cmp tos (read E (sheet st) address' (Str []))) (\<lambda>b.
             Inr (False, st\<lparr>cond := b\<rparr>)))
       | Inl e \<Rightarrow>
           bind_err (peek (stack st) 2) (\<lambda>x.
           bind_err (peek (stack st) 1) (\<lambda>y.
           bind_err (cmp x y) (\<lambda>b. Inr (False, st\<lparr>cond := b\<rparr>)))))"

text \<open>What a test observes of the result of one handler.\<close>

definition outcome :: "error + (bool \<times> state) \<Rightarrow> error + (bool \<times> bool \<times> val list)" where
  "outcome r = map_sum id (\<lambda>(jumped, st). (jumped, cond st, svalues (stack st))) r"

section \<open>Basic facts\<close>

lemma bind_err_simps [simp]:
  "bind_err (Inl e) f = Inl e"
  "bind_err (Inr x) f = f x"
  by (simp_all add: bind_err_def)

lemma length_ALPHABET [simp]: "length ALPHABET = 26"
  by (simp add: ALPHABET_def)

lemma length_digits [simp]: "length digits = 10"
  by (simp add: digits_def)

lemma index_of_upper_ALPHABET:
  assumes "k < 26"
  shows "index_of (upper_char (ALPHABET ! k)) ALPHABET = Some k"
proof -
  have "list_all (\<lambda>k. index_of (upper_char (ALPHABET ! k)) ALPHABET = Some k) [0..<26]"
    by code_simp
  with assms show ?thesis by (simp add: list_all_iff)
qed

lemma index_of_digits:
  assumes "k < 10"
  shows "index_of (digits ! k) digits = Some k"
proof -
  have "list_all (\<lambda>k. index_of (digits ! k) digits = Some k) [0..<10]"
    by code_simp
  with assms show ?thesis by (simp add: list_all_iff)
qed

lemma digit_not_letter: "c \<in> set digits \<Longrightarrow> \<not> is_letter c"
  by (auto simp: digits_def is_letter_def ALPHABET_def ascii_lowercase_def)

section \<open>The coordinate codec\<close>

lemma letters_loop_append:
  "letters_to_numbers_loop n (s @ t) =
     bind_err (letters_to_numbers_loop n s) (\<lambda>m. letters_to_numbers_loop m t)"
  by (induction s arbitrary: n) (auto split: option.splits)

lemma py_int_loop_append:
  "py_int_loop n (s @ t) = bind_err (py_int_loop n s) (\<lambda>m. py_int_loop m t)"
  by (induction s arbitrary: n) (auto split: option.splits)

lemma alphabet_at_nonneg:
  "0 \<le> i \<Longrightarrow> i < 26 \<Longrightarrow> alphabet_at i = Inr (ALPHABET ! nat i)"
  by (simp add: alphabet_at_def)

lemma letters_loop_single:
  "0 \<le> i \<Longrightarrow> i < 26 \<Longrightarrow>
     letters_to_numbers_loop n [ALPHABET ! nat i] = Inr (n * 26 + (i + 1))"
  by (simp add: index_of_upper_ALPHABET)

text \<open>
  The letters of a positive column are upper-case letters that decode to the column:
  by the recursion of \<open>numbers_to_letters\<close>, with \<open>n = q * 26 + r\<close> for the adjusted
  quotient and remainder.
\<close>

lemma numbers_to_letters_inverse:
  "0 < n \<Longrightarrow> \<exists>s. numbers_to_letters n = Inr s \<and> s \<noteq> [] \<and> set s \<subseteq> set ALPHABET
      \<and> letters_to_numbers_loop 0 s = Inr n"
proof (induction n rule: numbers_to_letters.induct)
  case (1 n)
  define q where "q = (if n mod 26 = 0 then n div 26 - 1 else n div 26)"
  define r where "r = (if n mod 26 = 0 then 26 else n mod 26)"
  have r: "0 \<le> r - 1" "r - 1 < 26"
    by (auto simp: r_def)
  have n: "n = q * 26 + r"
    by (auto simp: q_def r_def algebra_simps)
  have q0: "0 \<le> q"
    using \<open>0 < n\<close> n r by linarith
  let ?b = "ALPHABET ! nat (r - 1)"
  have b: "alphabet_at (r - 1) = Inr ?b"
    using r by (rule alphabet_at_nonneg)
  have bmem: "?b \<in> set ALPHABET"
    using r by (intro nth_mem) simp
  show ?case
  proof (cases "q = 0")
    case True
    have "numbers_to_letters n = Inr [?b]"
      by (subst numbers_to_letters.simps)
         (simp add: Let_def q_def [symmetric] r_def [symmetric] True b)
    moreover have "letters_to_numbers_loop 0 [?b] = Inr n"
      using letters_loop_single [OF r, of 0] n True by simp
    ultimately show ?thesis using bmem by simp
  next
    case False
    show ?thesis
    proof (cases "q \<le> 26")
      case True
      let ?a = "ALPHABET ! nat (q - 1)"
      have qr: "0 \<le> q - 1" "q - 1 < 26" using q0 False True by auto
      have a: "alphabet_at (q - 1) = Inr ?a"
        using qr by (rule alphabet_at_nonneg)
      have amem: "?a \<in> set ALPHABET"
        using qr by (intro nth_mem) simp
      have "numbers_to_letters n = Inr [?a, ?b]"
        by (subst numbers_to_letters.simps)
           (simp add: Let_def q_def [symmetric] r_def [symmetric] False True a b)
      moreover have "letters_to_numbers_loop 0 [?a, ?b] = Inr n"
        using letters_loop_append [of 0 "[?a]" "[?b]"]
          letters_loop_single [OF qr, of 0] letters_loop_single [OF r, of q] n
        by simp
      ultimately show ?thesis using amem bmem by simp
    next
      case big: False
      have "0 < q" using big by simp
      with "1.IH" [OF q_def r_def False big]
      obtain s where s: "numbers_to_letters q = Inr s" "s \<noteq> []" "set s \<subseteq> set ALPHABET"
          "letters_to_numbers_loop 0 s = Inr q"
        by blast
      have "numbers_to_letters n = Inr (s @ [?b])"
        by (subst numbers_to_letters.simps)
           (simp add: Let_def q_def [symmetric] r_def [symmetric] False big s b)
      moreover have "letters_to_numbers_loop 0 (s @ [?b]) = Inr n"
        using letters_loop_single [OF r, of q] n s(4)
        by (simp add: letters_loop_append)
      ultimately show ?thesis using s bmem by simp
    qed
  qed
qed

lemma str_nat_inverse:
  "str_nat n \<noteq> [] \<and> set (str_nat n) \<subseteq> set digits \<and> py_int_loop 0 (str_nat n) = Inr (int n)"
proof (induction n rule: str_nat.induct)
  case (1 n)
  show ?case
  proof (cases "n < 10")
    case True
    then have "str_nat n = [digits ! n]"
      by (subst str_nat.simps) simp
    then show ?thesis using True by (simp add: index_of_digits)
  next
    case False
    have m: "n mod 10 < 10" by simp
    have eq: "str_nat n = str_nat (n div 10) @ [digits ! (n mod 10)]"
      using False by (subst str_nat.simps) simp
    have "py_int_loop 0 (str_nat n) = Inr (int (n div 10) * 10 + int (n mod 10))"
      using "1.IH" [OF False] m by (simp add: eq py_int_loop_append index_of_digits)
    moreover have "int (n div 10) * 10 + int (n mod 10) = int n"
      by (simp add: zdiv_int zmod_int)
    ultimately show ?thesis using "1.IH" [OF False] m by (simp add: eq)
  qed
qed

text \<open>The pattern splits upper-case letters followed by digits at the right place.\<close>

lemma A1_NOTATION_match_concat:
  assumes "ls \<noteq> []" "set ls \<subseteq> set ALPHABET" "ds \<noteq> []" "set ds \<subseteq> set digits"
  shows "A1_NOTATION_match (ls @ ds) = Some (ls, ds)"
proof -
  have l: "\<forall>c\<in>set ls. is_letter c" using assms(2) by (auto simp: is_letter_def)
  have d: "\<forall>c\<in>set ds. is_digit c" using assms(4) by (auto simp: is_digit_def)
  have h: "\<not> is_letter (hd ds)"
    using assms(3,4) by (intro digit_not_letter) (auto simp: subset_iff)
  have tl: "takeWhile is_letter ds = []"
    using h by (simp add: takeWhile_eq_Nil_iff)
  have dl: "dropWhile is_letter ds = ds"
    using h assms(3) by (cases ds) auto
  have t1: "takeWhile is_letter (ls @ ds) = ls"
    using l tl by simp
  have d1: "dropWhile is_letter (ls @ ds) = ds"
    using l dl by simp
  have t2: "takeWhile is_digit ds = ds" using d by simp
  have d2: "dropWhile is_digit ds = []" using d by simp
  show ?thesis
    unfolding A1_NOTATION_match_def Let_def t1 d1 t2 d2 using assms(1,3) by simp
qed

lemma index_to_a1_inverse:
  assumes "0 < c" "0 < r"
  shows "\<exists>s. index_to_a1 (c, r) = Inr s \<and> a1_to_index (Str s) = Inr (c, r)"
proof -
  from numbers_to_letters_inverse [OF assms(1)]
  obtain ls where ls: "numbers_to_letters c = Inr ls" "ls \<noteq> []" "set ls \<subseteq> set ALPHABET"
      "letters_to_numbers_loop 0 ls = Inr c"
    by blast
  let ?ds = "str_nat (nat r)"
  have ds: "?ds \<noteq> []" "set ?ds \<subseteq> set digits" "py_int_loop 0 ?ds = Inr r"
    using str_nat_inverse [of "nat r"] assms(2) by simp_all
  have fmt: "index_to_a1 (c, r) = Inr (ls @ ?ds)"
    using assms ls(1) by (simp add: index_to_a1_def str_int_def)
  have "a1_to_index (Str (ls @ ?ds)) = Inr (c, r)"
    using A1_NOTATION_match_concat [OF ls(2,3) ds(1,2)] ls(4) ds(1,3)
    by (simp add: a1_to_index_def letters_to_numbers_def py_int_def)
  with fmt show ?thesis by blast
qed

lemma letters_loop_pos:
  "letters_to_numbers_loop n s = Inr m \<Longrightarrow> 0 \<le> n \<Longrightarrow> s \<noteq> [] \<Longrightarrow> 0 < m"
proof (induction s arbitrary: n)
  case Nil
  then show ?case by simp
next
  case (Cons c cs)
  then obtain i where i: "index_of (upper_char c) ALPHABET = Some i"
      and rest: "letters_to_numbers_loop (n * 26 + (int i + 1)) cs = Inr m"
    by (auto split: option.splits)
  have pos: "0 < n * 26 + (int i + 1)" using Cons.prems(2) by simp
  show ?case
  proof (cases cs)
    case Nil
    with rest pos show ?thesis by simp
  next
    case (Cons d ds)
    with Cons.IH [OF rest] pos show ?thesis by simp
  qed
qed

lemma a1_to_index_column_pos:
  assumes "a1_to_index (Str s) = Inr (c, r)"
  shows "0 < c"
proof -
  from assms obtain ls ds where m: "A1_NOTATION_match s = Some (ls, ds)"
    by (auto simp: a1_to_index_def split: option.splits)
  then have ne: "ls \<noteq> []"
    by (auto simp: A1_NOTATION_match_def Let_def split: if_splits)
  from assms m have "letters_to_numbers_loop 0 ls = Inr c"
    by (auto simp: a1_to_index_def letters_to_numbers_def bind_err_def split: sum.splits)
  from letters_loop_pos [OF this _ ne] show ?thesis by simp
qed

text \<open>
  C3. Formatting a pair of positive integers and parsing the result gives the pair
  back (for every positive pair, so also for those up to 10000); an address string that
  parses to a positive row formats to a string that parses to the same coordinates;
  and the five listed pairs and strings correspond, in both directions.
\<close>

theorem a1_round_trip:
  "(\<forall>c r. 0 < c \<and> 0 < r \<longrightarrow>
      (\<exists>s. index_to_a1 (c, r) = Inr s \<and> a1_to_index (Str s) = Inr (c, r)))
   \<and> (\<forall>s c r. a1_to_index (Str s) = Inr (c, r) \<and> 0 < r \<longrightarrow>
      (\<exists>s'. index_to_a1 (c, r) = Inr s' \<and> a1_to_index (Str s') = Inr (c, r)))
   \<and> index_to_a1 (1, 1) = Inr ''A1'' \<and> a1_to_index (Str ''A1'') = Inr (1, 1)
   \<and> index_to_a1 (26, 1) = Inr ''Z1'' \<and> a1_to_index (Str ''Z1'') = Inr (26, 1)
   \<and> index_to_a1 (27, 1) = Inr ''AA1'' \<and> a1_to_index (Str ''AA1'') = Inr (27, 1)
   \<and> index_to_a1 (702, 3) = Inr ''ZZ3'' \<and> a1_to_index (Str ''ZZ3'') = Inr (702, 3)
   \<and> index_to_a1 (703, 3) = Inr ''AAA3'' \<and> a1_to_index (Str ''AAA3'') = Inr (703, 3)"
proof -
  have fwd: "\<forall>c r. 0 < c \<and> 0 < r \<longrightarrow>
      (\<exists>s. index_to_a1 (c, r) = Inr s \<and> a1_to_index (Str s) = Inr (c, r))"
    using index_to_a1_inverse by blast
  have bwd: "\<forall>s c r. a1_to_index (Str s) = Inr (c, r) \<and> 0 < r \<longrightarrow>
      (\<exists>s'. index_to_a1 (c, r) = Inr s' \<and> a1_to_index (Str s') = Inr (c, r))"
    using index_to_a1_inverse a1_to_index_column_pos by blast
  have e1: "index_to_a1 (1, 1) = Inr ''A1''" "a1_to_index (Str ''A1'') = Inr (1, 1)"
    by code_simp+
  have e2: "index_to_a1 (26, 1) = Inr ''Z1''" "a1_to_index (Str ''Z1'') = Inr (26, 1)"
    by code_simp+
  have e3: "index_to_a1 (27, 1) = Inr ''AA1''" "a1_to_index (Str ''AA1'') = Inr (27, 1)"
    by code_simp+
  have e4: "index_to_a1 (702, 3) = Inr ''ZZ3''" "a1_to_index (Str ''ZZ3'') = Inr (702, 3)"
    by code_simp+
  have e5: "index_to_a1 (703, 3) = Inr ''AAA3''" "a1_to_index (Str ''AAA3'') = Inr (703, 3)"
    by code_simp+
  from fwd bwd e1 e2 e3 e4 e5 show ?thesis by blast
qed

theorem a1_round_trip_witness:
  "0 < (28::int) \<and> 0 < (5::int)
   \<and> (\<exists>s. index_to_a1 (28, 5) = Inr s \<and> a1_to_index (Str s) = Inr (28, 5))
   \<and> a1_to_index (Str ''ab12'') = Inr (28, 12)
   \<and> (\<exists>s'. index_to_a1 (28, 12) = Inr s' \<and> a1_to_index (Str s') = Inr (28, 12))"
proof -
  have p: "0 < (28::int) \<and> 0 < (5::int)" by simp
  have q: "a1_to_index (Str ''ab12'') = Inr (28, 12) \<and> 0 < (12::int)" by code_simp
  from a1_round_trip p q show ?thesis by blast
qed

text \<open>
  C8. The pattern accepts a row of zeros: \<open>A0\<close> parses to column 1, row 0, and no
  error is raised, although \<open>index_to_a1\<close> and \<open>argument\<close> both assert that a row is
  positive.
\<close>

theorem a1_to_index_accepts_row_zero:
  "a1_to_index (Str ''A0'') = Inr (1, 0)
   \<and> index_to_a1 (1, 0) = Inl AssertionError
   \<and> argument (1, 0) 1 = Inl AssertionError"
  by code_simp

section \<open>The operand stack\<close>

lemma popn_two:
  assumes "svalues stk = vs @ [a, b]"
    and "sframes stk = [] \<or> last (sframes stk) < real (length vs) + 1"
  shows "popn stk 2 = Inr ([a, b], stk\<lparr>svalues := vs\<rparr>)"
  using assms by (auto simp: popn_def Let_def)

lemma binary_arithmetic_check_two:
  assumes "svalues stk = vs @ [a, b]"
    and "sframes stk = [] \<or> last (sframes stk) < real (length vs) + 1"
  shows "binary_arithmetic_check stk =
     (if is_float a \<and> is_float b then Inr ([a, b], stk\<lparr>svalues := vs\<rparr>)
      else Inl ArithmeticError)"
  using popn_two [OF assms] by (auto simp: binary_arithmetic_check_def)

lemma binop_floats:
  assumes "svalues (stack st) = vs @ [Num x, Num y]"
    and "sframes (stack st) = [] \<or> last (sframes (stack st)) < real (length vs) + 1"
  shows "binop f st =
     bind_err (f x y) (\<lambda>r.
       Inr (False, with_stack st (vs @ [Num r]) (sframes (stack st))))"
  using binary_arithmetic_check_two [OF assms]
  by (cases "f x y") (simp_all add: binop_def with_stack_def push_def)

lemma binop_not_floats:
  assumes "svalues (stack st) = vs @ [a, b]"
    and "sframes (stack st) = [] \<or> last (sframes (stack st)) < real (length vs) + 1"
    and "\<not> (is_float a \<and> is_float b)"
  shows "binop f st = Inl ArithmeticError"
  using binary_arithmetic_check_two [OF assms(1,2)] assms(3)
  by (simp add: binop_def)

text \<open>
  C4, as the code has it. On a stack that ends with the two values \<open>a\<close> (below) and
  \<open>b\<close> (on top), not cut off by a frame: each of the six handlers fails with
  \<open>ArithmeticError\<close> unless both are floats (so also when one is an int). On two
  floats \<open>x\<close> and \<open>y\<close>: \<open>DIV\<close>, \<open>FDIV\<close> and \<open>MOD\<close> fail with
  \<open>ZeroDivisionError\<close> when \<open>y\<close> is zero; otherwise the handler removes both values
  and pushes the double that Python's operator returns for \<open>x OP y\<close>, the operand that
  was lower on the left, and \<open>DIV\<close> and \<open>FDIV\<close> are the same handler. The result is
  stated where it is a finite double.
\<close>

theorem arithmetic_opcodes:
  assumes "svalues (stack st) = vs @ [a, b]"
    and "sframes (stack st) = [] \<or> last (sframes (stack st)) < real (length vs) + 1"
  shows "(\<not> (is_float a \<and> is_float b) \<longrightarrow>
            do_ADD E st = Inl ArithmeticError \<and> do_SUB E st = Inl ArithmeticError
          \<and> do_MULT E st = Inl ArithmeticError \<and> do_DIV E st = Inl ArithmeticError
          \<and> do_FDIV E st = Inl ArithmeticError \<and> do_MOD E st = Inl ArithmeticError)
       \<and> (\<forall>x y r. a = Num x \<and> b = Num y \<longrightarrow>
            (float_add E x y = Some r \<longrightarrow>
               do_ADD E st = Inr (False, with_stack st (vs @ [Num r]) (sframes (stack st))))
          \<and> (float_sub E x y = Some r \<longrightarrow>
               do_SUB E st = Inr (False, with_stack st (vs @ [Num r]) (sframes (stack st))))
          \<and> (float_mul E x y = Some r \<longrightarrow>
               do_MULT E st = Inr (False, with_stack st (vs @ [Num r]) (sframes (stack st))))
          \<and> (y = 0 \<longrightarrow>
               do_DIV E st = Inl ZeroDivisionError \<and> do_MOD E st = Inl ZeroDivisionError)
          \<and> (y \<noteq> 0 \<and> float_truediv E x y = Some r \<longrightarrow>
               do_DIV E st = Inr (False, with_stack st (vs @ [Num r]) (sframes (stack st))))
          \<and> do_FDIV E st = do_DIV E st
          \<and> (y \<noteq> 0 \<and> float_mod E x y = Some r \<longrightarrow>
               do_MOD E st = Inr (False, with_stack st (vs @ [Num r]) (sframes (stack st)))))"
proof (intro conjI impI allI)
  fix x y r
  assume "a = Num x \<and> b = Num y"
  with assms(1) have s: "svalues (stack st) = vs @ [Num x, Num y]" by simp
  note b = binop_floats [OF s assms(2)]
  show "do_ADD E st = Inr (False, with_stack st (vs @ [Num r]) (sframes (stack st)))"
    if "float_add E x y = Some r"
    using that by (simp add: do_ADD_def b float_result_def)
  show "do_SUB E st = Inr (False, with_stack st (vs @ [Num r]) (sframes (stack st)))"
    if "float_sub E x y = Some r"
    using that by (simp add: do_SUB_def b float_result_def)
  show "do_MULT E st = Inr (False, with_stack st (vs @ [Num r]) (sframes (stack st)))"
    if "float_mul E x y = Some r"
    using that by (simp add: do_MULT_def b float_result_def)
  show "do_DIV E st = Inl ZeroDivisionError" if "y = 0"
    using that by (simp add: do_DIV_def b py_truediv_def)
  show "do_MOD E st = Inl ZeroDivisionError" if "y = 0"
    using that by (simp add: do_MOD_def b py_mod_def)
  show "do_DIV E st = Inr (False, with_stack st (vs @ [Num r]) (sframes (stack st)))"
    if "y \<noteq> 0 \<and> float_truediv E x y = Some r"
    using that by (simp add: do_DIV_def b py_truediv_def float_result_def)
  show "do_FDIV E st = do_DIV E st"
    by (simp add: do_DIV_def do_FDIV_def)
  show "do_MOD E st = Inr (False, with_stack st (vs @ [Num r]) (sframes (stack st)))"
    if "y \<noteq> 0 \<and> float_mod E x y = Some r"
    using that by (simp add: do_MOD_def b py_mod_def float_result_def)
next
  assume n: "\<not> (is_float a \<and> is_float b)"
  note b = binop_not_floats [OF assms n]
  show "do_ADD E st = Inl ArithmeticError" by (simp add: do_ADD_def b)
  show "do_SUB E st = Inl ArithmeticError" by (simp add: do_SUB_def b)
  show "do_MULT E st = Inl ArithmeticError" by (simp add: do_MULT_def b)
  show "do_DIV E st = Inl ArithmeticError" by (simp add: do_DIV_def b)
  show "do_FDIV E st = Inl ArithmeticError" by (simp add: do_FDIV_def b)
  show "do_MOD E st = Inl ArithmeticError" by (simp add: do_MOD_def b)
qed

theorem arithmetic_opcodes_witness:
  "do_ADD sample_env (with_stack (interpreter Map.empty) [Num 2, Str ''x''] []) = Inl ArithmeticError
   \<and> float_add sample_env 2 3 = Some 5
   \<and> do_ADD sample_env (with_stack (interpreter Map.empty) [Num 2, Num 3] []) =
       Inr (False, with_stack (interpreter Map.empty) [Num 5] [])
   \<and> float_truediv sample_env 6 3 = Some 2
   \<and> do_DIV sample_env (with_stack (interpreter Map.empty) [Num 6, Num 3] []) =
       Inr (False, with_stack (interpreter Map.empty) [Num 2] [])
   \<and> do_FDIV sample_env (with_stack (interpreter Map.empty) [Num 6, Num 3] []) =
       Inr (False, with_stack (interpreter Map.empty) [Num 2] [])"
proof -
  let ?s = "\<lambda>vs. with_stack (interpreter Map.empty) vs []"
  have v: "\<And>a b. svalues (stack (?s [a, b])) = [] @ [a, b]"
    and f: "\<And>a b. sframes (stack (?s [a, b])) = []
              \<or> last (sframes (stack (?s [a, b]))) < real (length ([] :: val list)) + 1"
    by (simp_all add: with_stack_def)
  have a23: "float_add sample_env 2 3 = Some 5"
    and d63: "float_truediv sample_env 6 3 = Some 2"
    by (simp_all add: sample_env_def)
  from arithmetic_opcodes [OF v f, of "Num 2" "Str ''x''" sample_env]
  have 1: "do_ADD sample_env (?s [Num 2, Str ''x'']) = Inl ArithmeticError"
    by simp
  from arithmetic_opcodes [OF v f, of "Num 2" "Num 3" sample_env, THEN conjunct2,
      THEN spec [of _ 2], THEN spec [of _ 3], THEN spec [of _ 5]] a23
  have 2: "do_ADD sample_env (?s [Num 2, Num 3]) = Inr (False, ?s [Num 5])"
    by (simp add: with_stack_def)
  from arithmetic_opcodes [OF v f, of "Num 6" "Num 3" sample_env, THEN conjunct2,
      THEN spec [of _ 6], THEN spec [of _ 3], THEN spec [of _ 2]] d63
  have 3: "do_DIV sample_env (?s [Num 6, Num 3]) = Inr (False, ?s [Num 2])"
    and 4: "do_FDIV sample_env (?s [Num 6, Num 3]) = Inr (False, ?s [Num 2])"
    by (simp_all add: with_stack_def)
  from 1 a23 2 d63 3 4 show ?thesis by simp
qed

text \<open>
  C4 as the claim states it fails on two numeric values in two ways. On the stack
  \<^verbatim>\<open>[1.0, 0.0]\<close> both values are floats, and \<open>DIV\<close>, \<open>FDIV\<close> and \<open>MOD\<close> neither
  push a result nor fail with \<open>ArithmeticError\<close>: they fail with
  \<open>ZeroDivisionError\<close>. On the stack \<^verbatim>\<open>[3, 4]\<close> of two ints, which are numbers,
  \<open>ADD\<close> fails with \<open>ArithmeticError\<close>.
\<close>

theorem arithmetic_on_numbers_fails:
  "is_float (Num 1) \<and> is_float (Num 0)
   \<and> do_DIV sample_env (with_stack (interpreter Map.empty) [Num 1, Num 0] []) = Inl ZeroDivisionError
   \<and> do_FDIV sample_env (with_stack (interpreter Map.empty) [Num 1, Num 0] []) = Inl ZeroDivisionError
   \<and> do_MOD sample_env (with_stack (interpreter Map.empty) [Num 1, Num 0] []) = Inl ZeroDivisionError
   \<and> num_of (IntV 3) = Some 3 \<and> num_of (IntV 4) = Some 4
   \<and> do_ADD sample_env (with_stack (interpreter Map.empty) [IntV 3, IntV 4] []) = Inl ArithmeticError"
proof -
  let ?s = "\<lambda>vs. with_stack (interpreter Map.empty) vs []"
  have v: "\<And>a b. svalues (stack (?s [a, b])) = [] @ [a, b]"
    and f: "\<And>a b. sframes (stack (?s [a, b])) = []
              \<or> last (sframes (stack (?s [a, b]))) < real (length ([] :: val list)) + 1"
    by (simp_all add: with_stack_def)
  have z: "do_DIV sample_env (?s [Num 1, Num 0]) = Inl ZeroDivisionError"
      "do_FDIV sample_env (?s [Num 1, Num 0]) = Inl ZeroDivisionError"
      "do_MOD sample_env (?s [Num 1, Num 0]) = Inl ZeroDivisionError"
    by (simp_all add: do_DIV_def do_FDIV_def do_MOD_def binop_floats [OF v f]
        py_truediv_def py_mod_def)
  have i: "do_ADD sample_env (?s [IntV 3, IntV 4]) = Inl ArithmeticError"
    by (simp add: do_ADD_def binop_not_floats [OF v f])
  from z i show ?thesis by simp
qed

text \<open>
  C7. With exactly one frame, \<open>peek\<close> fails whatever is on the stack: it reads the
  boundary at position 1 of the frame list, which does not exist. \<open>pop\<close> reads the
  last boundary and succeeds on the same stack when a value lies above it.
\<close>

theorem peek_single_frame_raises:
  assumes "length (sframes st) = 1"
  shows "peek st n = Inl IndexError
       \<and> (svalues st \<noteq> [] \<and> last (sframes st) < real (length (svalues st)) \<longrightarrow>
            pop st = Inr (last (svalues st), st\<lparr>svalues := butlast (svalues st)\<rparr>))"
proof
  from assms show "peek st n = Inl IndexError"
    by (auto simp: peek_def Let_def)
next
  show "svalues st \<noteq> [] \<and> last (sframes st) < real (length (svalues st)) \<longrightarrow>
      pop st = Inr (last (svalues st), st\<lparr>svalues := butlast (svalues st)\<rparr>)"
    by (simp add: pop_def)
qed

theorem peek_single_frame_raises_witness:
  "length (sframes \<lparr>svalues = [Num 10], sframes = [0]\<rparr>) = 1
   \<and> peek \<lparr>svalues = [Num 10], sframes = [0]\<rparr> 1 = Inl IndexError
   \<and> pop \<lparr>svalues = [Num 10], sframes = [0]\<rparr> = Inr (Num 10, \<lparr>svalues = [], sframes = [0]\<rparr>)
   \<and> push_frame \<lparr>svalues = [Num 10], sframes = []\<rparr> 1 = Inr \<lparr>svalues = [Num 10], sframes = [0]\<rparr>"
proof -
  have l: "length (sframes \<lparr>svalues = [Num 10], sframes = [0]\<rparr>) = 1" by simp
  have f: "push_frame \<lparr>svalues = [Num 10], sframes = []\<rparr> 1
      = Inr \<lparr>svalues = [Num 10], sframes = [0]\<rparr>"
    by (simp add: push_frame_def)
  from peek_single_frame_raises [OF l, of 1] l f show ?thesis by simp
qed

section \<open>Random integers and arithmetic\<close>

lemma do_RANDINT_pushes_int:
  assumes "do_RANDINT E st = Inr (j, st1)"
  shows "\<exists>k. stack st1 = push (stack st) (IntV k)"
  using assms
  by (auto simp: do_RANDINT_def bind_err_def Let_def split: sum.splits val.splits)

text \<open>
  C10. What \<open>RANDINT\<close> pushes is an \<open>int\<close>. Wherever that value is one of the two top
  values of a stack (not cut off by a frame), each of the six arithmetic handlers
  fails with \<open>ArithmeticError\<close>, whatever the other value is.
\<close>

theorem randint_value_fails_arithmetic:
  assumes "do_RANDINT E st = Inr (j, st1)"
  shows "\<exists>k. stack st1 = push (stack st) (IntV k)
     \<and> (\<forall>st2 vs a b.
          svalues (stack st2) = vs @ [a, b] \<and> (a = IntV k \<or> b = IntV k)
          \<and> (sframes (stack st2) = [] \<or> last (sframes (stack st2)) < real (length vs) + 1)
          \<longrightarrow> do_ADD E st2 = Inl ArithmeticError \<and> do_SUB E st2 = Inl ArithmeticError
            \<and> do_MULT E st2 = Inl ArithmeticError \<and> do_DIV E st2 = Inl ArithmeticError
            \<and> do_FDIV E st2 = Inl ArithmeticError \<and> do_MOD E st2 = Inl ArithmeticError)"
proof -
  from do_RANDINT_pushes_int [OF assms]
  obtain k where k: "stack st1 = push (stack st) (IntV k)" by blast
  have "do_ADD E st2 = Inl ArithmeticError \<and> do_SUB E st2 = Inl ArithmeticError
      \<and> do_MULT E st2 = Inl ArithmeticError \<and> do_DIV E st2 = Inl ArithmeticError
      \<and> do_FDIV E st2 = Inl ArithmeticError \<and> do_MOD E st2 = Inl ArithmeticError"
    if h: "svalues (stack st2) = vs @ [a, b] \<and> (a = IntV k \<or> b = IntV k)
          \<and> (sframes (stack st2) = [] \<or> last (sframes (stack st2)) < real (length vs) + 1)"
    for st2 vs a b
  proof -
    from h have n: "\<not> (is_float a \<and> is_float b)" by auto
    from h have v: "svalues (stack st2) = vs @ [a, b]"
      and f: "sframes (stack st2) = [] \<or> last (sframes (stack st2)) < real (length vs) + 1"
      by simp_all
    note b = binop_not_floats [OF v f n]
    show ?thesis
      by (simp add: do_ADD_def do_SUB_def do_MULT_def do_DIV_def do_FDIV_def do_MOD_def b)
  qed
  with k show ?thesis by blast
qed

theorem randint_value_fails_arithmetic_witness:
  "\<exists>st1 k. do_RANDINT sample_env randint_state = Inr (False, st1)
     \<and> svalues (stack st1) = [Num 2, IntV k]
     \<and> do_ADD sample_env st1 = Inl ArithmeticError
     \<and> do_MOD sample_env st1 = Inl ArithmeticError"
proof -
  have "\<not> isl (do_RANDINT sample_env randint_state)
      \<and> \<not> fst (projr (do_RANDINT sample_env randint_state))"
    by code_simp
  then obtain st1 where r: "do_RANDINT sample_env randint_state = Inr (False, st1)"
    by (cases "do_RANDINT sample_env randint_state") auto
  from randint_value_fails_arithmetic [OF r]
  obtain k where k: "stack st1 = push (stack randint_state) (IntV k)"
    and a: "\<And>st2 vs a b.
          svalues (stack st2) = vs @ [a, b] \<and> (a = IntV k \<or> b = IntV k)
          \<and> (sframes (stack st2) = [] \<or> last (sframes (stack st2)) < real (length vs) + 1)
          \<Longrightarrow> do_ADD sample_env st2 = Inl ArithmeticError \<and> do_SUB sample_env st2 = Inl ArithmeticError
            \<and> do_MULT sample_env st2 = Inl ArithmeticError \<and> do_DIV sample_env st2 = Inl ArithmeticError
            \<and> do_FDIV sample_env st2 = Inl ArithmeticError \<and> do_MOD sample_env st2 = Inl ArithmeticError"
    by blast
  from k have v: "svalues (stack st1) = [Num 2, IntV k]" and f: "sframes (stack st1) = []"
    by (simp_all add: push_def randint_state_def with_stack_def)
  from a [of st1 "[]" "Num 2" "IntV k"] v f
  have "do_ADD sample_env st1 = Inl ArithmeticError \<and> do_MOD sample_env st1 = Inl ArithmeticError"
    by simp
  with r v show ?thesis by blast
qed

section \<open>Reading cells\<close>

lemma interpret_value_not_number:
  "py_float E s = Inl e \<Longrightarrow> interpret_value E (Str s) = Str s"
  by (simp add: interpret_value_def safe_float_def)

lemma interpret_value_zero:
  "py_float E s = Inr 0 \<Longrightarrow> interpret_value E (Str s) = Str s"
  by (simp add: interpret_value_def safe_float_def)

lemma str_int_zero: "str_int 0 = ''0''"
  by code_simp

text \<open>
  C2. A zero does not come back as a number: with \<^verbatim>\<open>float("0") == 0.0\<close>, the string
  \<^verbatim>\<open>"0"\<close> and the integer 0 are both stored, and read back, as the text \<^verbatim>\<open>"0"\<close>.
\<close>

theorem zero_reads_back_as_text:
  assumes "py_float E ''0'' = Inr 0"
  shows "read E (write_cell E sh idx (Str ''0'')) idx d = Str ''0''
       \<and> read E (write_cell E sh idx (IntV 0)) idx d = Str ''0''"
  using assms
  by (simp add: read_def write_cell_def interpret_value_def safe_float_def str_int_zero)

theorem zero_reads_back_as_text_witness:
  "py_float sample_env ''0'' = Inr 0
   \<and> read sample_env (write_cell sample_env Map.empty (1, 1) (Str ''0'')) (1, 1) (Str []) = Str ''0''
   \<and> read sample_env (write_cell sample_env Map.empty (1, 1) (Str ''5'')) (1, 1) (Str []) = Num 5"
proof -
  have z: "py_float sample_env ''0'' = Inr 0" by code_simp
  have f: "read sample_env (write_cell sample_env Map.empty (1, 1) (Str ''5'')) (1, 1) (Str [])
      = Num 5"
    by code_simp
  from zero_reads_back_as_text [OF z, of Map.empty "(1, 1)" "Str []"] z f
  show ?thesis by simp
qed

section \<open>The fetch step\<close>

lemma upper_halt: "upper ''halt'' = ''HALT''"
  by code_simp

lemma upper_empty: "upper [] = []"
  by (simp add: upper_def)

lemma getattr_do_HALT: "getattr_do ''HALT'' = None"
  by (simp add: getattr_do_def methods_def)

lemma getattr_do_empty: "getattr_do [] = None"
  by (simp add: getattr_do_def methods_def)

lemma step_no_attribute:
  assumes "read E (sheet st) (ip st) (Str ''HALT'') = Str name"
    and "name \<noteq> ''HALT''" and "getattr_do (upper name) = None"
  shows "step E st = Inl AttributeError"
  using assms by (simp add: step_def)

lemma step_dispatch:
  assumes "read E (sheet st) (ip st) (Str ''HALT'') = Str name"
    and "name \<noteq> ''HALT''" and "getattr_do (upper name) = Some m"
  shows "step E st =
     bind_err (m E st) (\<lambda>(jumped, st').
       Inr (Inr (if jumped then st' else st'\<lparr>ip := (fst (ip st'), snd (ip st') + 1)\<rparr>)))"
proof (cases "m E st")
  case (Inl e)
  with assms show ?thesis by (simp add: step_def truth_of_method_def)
next
  case (Inr p)
  with assms show ?thesis
    by (cases p) (simp add: step_def truth_of_method_def)
qed

text \<open>
  C1. The test for the halt opcode is the exact comparison with \<^verbatim>\<open>"HALT"\<close>, made
  before the name is upper-cased: a cell that holds \<^verbatim>\<open>halt\<close> in lower case, or a
  stored empty string, is not a halt. The loop goes on to look up the attribute
  \<^verbatim>\<open>do_HALT\<close>, or \<^verbatim>\<open>do_\<close>, which does not exist, and the run ends in
  \<open>AttributeError\<close>.
\<close>

theorem halt_test_is_exact:
  assumes "sheet st (ip st) = Some (Str s)" and "s = ''halt'' \<or> s = []"
    and "py_float E s = Inl ValueError"
  shows "run E (Suc fuel) st = Some (Inl AttributeError)"
proof -
  have r: "read E (sheet st) (ip st) (Str ''HALT'') = Str s"
    using assms(1,3) by (simp add: read_def interpret_value_not_number)
  have n: "s \<noteq> ''HALT''" using assms(2) by auto
  have g: "getattr_do (upper s) = None"
    using assms(2) by (auto simp: upper_halt upper_empty getattr_do_HALT getattr_do_empty)
  from step_no_attribute [OF r n g] show ?thesis by simp
qed

theorem halt_test_is_exact_witness:
  "sheet (one_cell (Str ''halt'')) (ip (one_cell (Str ''halt''))) = Some (Str ''halt'')
   \<and> py_float sample_env ''halt'' = Inl ValueError
   \<and> run sample_env 1 (one_cell (Str ''halt'')) = Some (Inl AttributeError)
   \<and> py_float sample_env [] = Inl ValueError
   \<and> run sample_env 1 (one_cell (Str [])) = Some (Inl AttributeError)
   \<and> observe (run sample_env 1 (one_cell (Str ''HALT''))) = Some (Inr ((1, 1), [], [], [], False))"
proof -
  have c: "\<And>s. sheet (one_cell (Str s)) (ip (one_cell (Str s))) = Some (Str s)"
    by (simp add: one_cell_def interpreter_def)
  have f: "py_float sample_env ''halt'' = Inl ValueError" "py_float sample_env [] = Inl ValueError"
    by code_simp+
  have h: "observe (run sample_env 1 (one_cell (Str ''HALT''))) = Some (Inr ((1, 1), [], [], [], False))"
    by code_simp
  have 1: "run sample_env (Suc 0) (one_cell (Str ''halt'')) = Some (Inl AttributeError)"
    using halt_test_is_exact [OF c _ f(1), of 0] by simp
  have 2: "run sample_env (Suc 0) (one_cell (Str [])) = Some (Inl AttributeError)"
    using halt_test_is_exact [OF c _ f(2), of 0] by simp
  from c f h 1 2 show ?thesis by simp
qed

text \<open>
  C9. A textual cell other than \<^verbatim>\<open>HALT\<close> whose upper-cased name has no handler ends
  the run in \<open>AttributeError\<close>, raised by \<^verbatim>\<open>getattr\<close> itself; the test that should
  raise \<open>InvalidOpcode\<close> comes after it and is never reached with a missing handler.
  A name that has a handler is dispatched to it.
\<close>

theorem unknown_opcode_raises_AttributeError:
  assumes "read E (sheet st) (ip st) (Str ''HALT'') = Str name" and "name \<noteq> ''HALT''"
  shows "(getattr_do (upper name) = None \<longrightarrow>
            step E st = Inl AttributeError \<and> run E (Suc fuel) st = Some (Inl AttributeError))
       \<and> (\<forall>m. getattr_do (upper name) = Some m \<longrightarrow>
            step E st =
              bind_err (m E st) (\<lambda>(jumped, st').
                Inr (Inr (if jumped then st'
                          else st'\<lparr>ip := (fst (ip st'), snd (ip st') + 1)\<rparr>))))"
  using step_no_attribute [OF assms] step_dispatch [OF assms] by simp

theorem unknown_opcode_raises_AttributeError_witness:
  "read sample_env (sheet (one_cell (Str ''FOO''))) (ip (one_cell (Str ''FOO''))) (Str ''HALT'')
     = Str ''FOO''
   \<and> getattr_do (upper ''FOO'') = None
   \<and> run sample_env 1 (one_cell (Str ''FOO'')) = Some (Inl AttributeError)"
proof -
  have r: "read sample_env (sheet (one_cell (Str ''FOO''))) (ip (one_cell (Str ''FOO'')))
      (Str ''HALT'') = Str ''FOO''"
    by code_simp
  have n: "''FOO'' \<noteq> ''HALT''" by simp
  have u: "upper ''FOO'' = ''FOO''" by code_simp
  have g: "getattr_do (upper ''FOO'') = None"
    by (simp add: u getattr_do_def methods_def)
  from unknown_opcode_raises_AttributeError [OF r n, of 0] g
  have "run sample_env (Suc 0) (one_cell (Str ''FOO'')) = Some (Inl AttributeError)"
    by blast
  with r g show ?thesis by simp
qed

section \<open>Subroutine call and return\<close>

lemma arg1_address_positive:
  "arg1_address E st = Inr t \<Longrightarrow> 0 < fst (ip st) \<and> 0 < snd (ip st)"
  by (auto simp: arg1_address_def argument_def split: if_splits)

lemma push_frame_ok:
  assumes "(if sframes stk = [] then 0 else last (sframes stk)) \<le> real (length (svalues stk)) - n"
  shows "push_frame stk n = Inr (stk\<lparr>sframes := sframes stk @ [real (length (svalues stk)) - n]\<rparr>)"
  using assms by (auto simp: push_frame_def Let_def split: if_splits)

lemma do_CALL_numeric:
  assumes "arg1_address E st = Inr t"
    and "read E (sheet st) (fst (ip st) + 2, snd (ip st)) (IntV 0) = Num n"
    and "(if sframes (stack st) = [] then 0 else last (sframes (stack st)))
           \<le> real (length (svalues (stack st))) - n"
  shows "do_CALL E st =
     Inr (True, st\<lparr>stack := (stack st)\<lparr>sframes := sframes (stack st)
                                   @ [real (length (svalues (stack st))) - n]\<rparr>,
                  ret_stack := ret_stack st @ [ip st], ip := t\<rparr>)"
proof -
  from arg1_address_positive [OF assms(1)]
  have a2: "argument (ip st) 2 = Inr (fst (ip st) + 2, snd (ip st))"
    by (simp add: argument_def)
  show ?thesis
    by (simp add: do_CALL_def assms(1,2) a2 push_frame_ok [OF assms(3)])
qed

lemma upper_RETURN: "upper ''RETURN'' = ''RETURN''"
  by code_simp

lemma upper_CALL: "upper ''CALL'' = ''CALL''"
  by code_simp

lemma getattr_do_RETURN: "getattr_do ''RETURN'' = Some do_RETURN"
  by (simp add: getattr_do_def methods_def)

lemma getattr_do_CALL: "getattr_do ''CALL'' = Some do_CALL"
  by (simp add: getattr_do_def methods_def)

lemma step_RETURN:
  assumes "ret_stack st = rs @ [p]"
    and "read E (sheet st) (ip st) (Str ''HALT'') = Str ''RETURN''"
  shows "step E st =
     Inr (Inr (st\<lparr>ip := (fst p, snd p + 1), ret_stack := rs, stack := pop_frame (stack st)\<rparr>))"
proof -
  have d: "do_RETURN E st =
      Inr (False, st\<lparr>ip := p, ret_stack := rs, stack := pop_frame (stack st)\<rparr>)"
    using assms(1) by (simp add: do_RETURN_def)
  have "step E st =
      bind_err (do_RETURN E st) (\<lambda>(jumped, st').
        Inr (Inr (if jumped then st' else st'\<lparr>ip := (fst (ip st'), snd (ip st') + 1)\<rparr>)))"
    using assms(2) by (intro step_dispatch [where name = "''RETURN''"])
      (simp_all add: upper_RETURN getattr_do_RETURN)
  then show ?thesis by (simp add: d)
qed

lemma step_CALL_numeric:
  assumes "read E (sheet st) (ip st) (Str ''HALT'') = Str ''CALL''"
    and "arg1_address E st = Inr t"
    and "read E (sheet st) (fst (ip st) + 2, snd (ip st)) (IntV 0) = Num n"
    and "(if sframes (stack st) = [] then 0 else last (sframes (stack st)))
           \<le> real (length (svalues (stack st))) - n"
  shows "step E st =
     Inr (Inr (st\<lparr>stack := (stack st)\<lparr>sframes := sframes (stack st)
                                   @ [real (length (svalues (stack st))) - n]\<rparr>,
                  ret_stack := ret_stack st @ [ip st], ip := t\<rparr>))"
proof -
  have "step E st =
      bind_err (do_CALL E st) (\<lambda>(jumped, st').
        Inr (Inr (if jumped then st' else st'\<lparr>ip := (fst (ip st'), snd (ip st') + 1)\<rparr>)))"
    using assms(1) by (intro step_dispatch [where name = "''CALL''"])
      (simp_all add: upper_CALL getattr_do_CALL)
  then show ?thesis by (simp add: do_CALL_numeric [OF assms(2-4)])
qed

lemma pop_frame_pushed:
  "pop_frame (stk\<lparr>sframes := sframes stk @ [x]\<rparr>) = stk"
  by (simp add: pop_frame_def)

text \<open>
  C5. \<open>CALL\<close> with a target \<open>t\<close> and a numeric count \<open>n\<close> that the enclosing frame
  allows: the new frame boundary is the depth minus \<open>n\<close> (the \<open>n\<close> top values are
  above it), the instruction pointer of the \<open>CALL\<close> is pushed on the return stack, and
  the pointer becomes \<open>t\<close>, not advanced. One pass of the loop at a cell holding
  \<open>RETURN\<close> restores the last return address, advanced by one row, and removes the
  last frame. So a \<open>CALL\<close> whose target holds \<open>RETURN\<close> leads in two passes back to the
  state before it, one row further down; and in the scenario of the claim the run ends
  at row 3 with the stack \<open>[10.0]\<close>, no frame and an empty return stack.
\<close>

theorem call_then_return:
  "(\<forall>st t n.
      arg1_address E st = Inr t
      \<and> read E (sheet st) (fst (ip st) + 2, snd (ip st)) (IntV 0) = Num n
      \<and> (if sframes (stack st) = [] then 0 else last (sframes (stack st)))
           \<le> real (length (svalues (stack st))) - n
      \<longrightarrow> do_CALL E st =
            Inr (True, st\<lparr>stack := (stack st)\<lparr>sframes := sframes (stack st)
                                          @ [real (length (svalues (stack st))) - n]\<rparr>,
                         ret_stack := ret_stack st @ [ip st], ip := t\<rparr>))
   \<and> (\<forall>st rs p.
      ret_stack st = rs @ [p] \<and> read E (sheet st) (ip st) (Str ''HALT'') = Str ''RETURN''
      \<longrightarrow> step E st =
            Inr (Inr (st\<lparr>ip := (fst p, snd p + 1), ret_stack := rs,
                        stack := pop_frame (stack st)\<rparr>)))
   \<and> (\<forall>st t n.
      read E (sheet st) (ip st) (Str ''HALT'') = Str ''CALL''
      \<and> arg1_address E st = Inr t
      \<and> read E (sheet st) (fst (ip st) + 2, snd (ip st)) (IntV 0) = Num n
      \<and> (if sframes (stack st) = [] then 0 else last (sframes (stack st)))
           \<le> real (length (svalues (stack st))) - n
      \<and> read E (sheet st) t (Str ''HALT'') = Str ''RETURN''
      \<longrightarrow> (\<exists>st1. step E st = Inr (Inr st1) \<and> ip st1 = t
            \<and> ret_stack st1 = ret_stack st @ [ip st]
            \<and> step E st1 = Inr (Inr (st\<lparr>ip := (fst (ip st), snd (ip st) + 1)\<rparr>))))
   \<and> observe (run sample_env 3 call_state) = Some (Inr ((1, 3), [Num 10], [], [], False))"
proof (intro conjI allI impI)
  fix st :: state and t :: "int \<times> int" and n :: real
  assume "arg1_address E st = Inr t
      \<and> read E (sheet st) (fst (ip st) + 2, snd (ip st)) (IntV 0) = Num n
      \<and> (if sframes (stack st) = [] then 0 else last (sframes (stack st)))
           \<le> real (length (svalues (stack st))) - n"
  then show "do_CALL E st =
      Inr (True, st\<lparr>stack := (stack st)\<lparr>sframes := sframes (stack st)
                                    @ [real (length (svalues (stack st))) - n]\<rparr>,
                   ret_stack := ret_stack st @ [ip st], ip := t\<rparr>)"
    using do_CALL_numeric by blast
next
  fix st :: state and rs :: "(int \<times> int) list" and p :: "int \<times> int"
  assume "ret_stack st = rs @ [p] \<and> read E (sheet st) (ip st) (Str ''HALT'') = Str ''RETURN''"
  then show "step E st =
      Inr (Inr (st\<lparr>ip := (fst p, snd p + 1), ret_stack := rs, stack := pop_frame (stack st)\<rparr>))"
    using step_RETURN by blast
next
  fix st :: state and t :: "int \<times> int" and n :: real
  assume h: "read E (sheet st) (ip st) (Str ''HALT'') = Str ''CALL''
      \<and> arg1_address E st = Inr t
      \<and> read E (sheet st) (fst (ip st) + 2, snd (ip st)) (IntV 0) = Num n
      \<and> (if sframes (stack st) = [] then 0 else last (sframes (stack st)))
           \<le> real (length (svalues (stack st))) - n
      \<and> read E (sheet st) t (Str ''HALT'') = Str ''RETURN''"
  define st1 where "st1 = st\<lparr>stack := (stack st)\<lparr>sframes := sframes (stack st)
                                   @ [real (length (svalues (stack st))) - n]\<rparr>,
                  ret_stack := ret_stack st @ [ip st], ip := t\<rparr>"
  from h have c: "step E st = Inr (Inr st1)"
    unfolding st1_def by (intro step_CALL_numeric) simp_all
  have r: "ret_stack st1 = ret_stack st @ [ip st]" and i: "ip st1 = t"
    by (simp_all add: st1_def)
  have rd: "read E (sheet st1) (ip st1) (Str ''HALT'') = Str ''RETURN''"
    using h by (simp add: st1_def)
  have "step E st1 = Inr (Inr (st\<lparr>ip := (fst (ip st), snd (ip st) + 1)\<rparr>))"
    unfolding step_RETURN [OF r rd]
    by (simp add: st1_def pop_frame_pushed)
  with c r i
  show "\<exists>st1. step E st = Inr (Inr st1) \<and> ip st1 = t
            \<and> ret_stack st1 = ret_stack st @ [ip st]
            \<and> step E st1 = Inr (Inr (st\<lparr>ip := (fst (ip st), snd (ip st) + 1)\<rparr>))"
    by blast
next
  show "observe (run sample_env 3 call_state) = Some (Inr ((1, 3), [Num 10], [], [], False))"
    by code_simp
qed

theorem call_then_return_witness:
  "read sample_env (sheet call_state) (ip call_state) (Str ''HALT'') = Str ''CALL''
   \<and> arg1_address sample_env call_state = Inr (2, 1)
   \<and> read sample_env (sheet call_state) (3, 2) (IntV 0) = Num 1
   \<and> read sample_env (sheet call_state) (2, 1) (Str ''HALT'') = Str ''RETURN''
   \<and> (\<exists>st1. step sample_env call_state = Inr (Inr st1) \<and> ip st1 = (2, 1)
         \<and> ret_stack st1 = [(1, 2)]
         \<and> step sample_env st1 = Inr (Inr (call_state\<lparr>ip := (1, 3)\<rparr>)))"
proof -
  have i: "ip call_state = (1, 2)" "ret_stack call_state = []"
    by (simp_all add: call_state_def with_stack_def interpreter_def)
  have a: "read sample_env (sheet call_state) (ip call_state) (Str ''HALT'') = Str ''CALL''"
    by code_simp
  have b: "arg1_address sample_env call_state = Inr (2, 1)"
    by code_simp
  have c: "read sample_env (sheet call_state) (3, 2) (IntV 0) = Num 1"
    by code_simp
  have d: "(if sframes (stack call_state) = [] then 0 else last (sframes (stack call_state)))
      \<le> real (length (svalues (stack call_state))) - 1"
    by (simp add: call_state_def with_stack_def)
  have e: "read sample_env (sheet call_state) (2, 1) (Str ''HALT'') = Str ''RETURN''"
    by code_simp
  note third = call_then_return [of sample_env, THEN conjunct2, THEN conjunct2,
      THEN conjunct1, rule_format, of call_state "(2, 1)" 1]
  have "\<exists>st1. step sample_env call_state = Inr (Inr st1) \<and> ip st1 = (2, 1)
      \<and> ret_stack st1 = ret_stack call_state @ [ip call_state]
      \<and> step sample_env st1 =
          Inr (Inr (call_state\<lparr>ip := (fst (ip call_state), snd (ip call_state) + 1)\<rparr>))"
    using third a b c d e by (simp add: i)
  with a b c e show ?thesis by (simp add: i)
qed

section \<open>The comparison handlers\<close>

lemma peek_top:
  "peek stk 1 = Inr v \<Longrightarrow> v = last (svalues stk)"
  by (auto simp: peek_def Let_def last_conv_nth nat_diff_distrib' split: if_splits)

lemma nth_second_last:
  "2 \<le> length xs \<Longrightarrow> xs ! (length xs - 2) = last (butlast xs)"
  by (cases xs rule: rev_cases; cases "butlast xs" rule: rev_cases)
     (auto simp: nth_append butlast_append)

lemma peek_second:
  "peek stk 2 = Inr v \<Longrightarrow> v = last (butlast (svalues stk))"
  by (auto simp: peek_def Let_def nth_second_last nat_diff_distrib' split: if_splits)

lemma compare_with_success:
  assumes "argument (ip st) 1 = Inr a"
    and "a1_to_index (read E (sheet st) a (Str [])) = Inr addr"
    and "peek (stack st) 1 = Inr tos"
    and "cmp tos (read E (sheet st) addr (Str [])) = Inr b"
  shows "compare_with cmp E st = Inr (False, st\<lparr>cond := b\<rparr>)"
  using assms by (simp add: compare_with_def Let_def)

lemma compare_with_fallback:
  assumes "argument (ip st) 1 = Inr a"
    and "(\<exists>e. a1_to_index (read E (sheet st) a (Str [])) = Inl e)
       \<or> (\<exists>addr. a1_to_index (read E (sheet st) a (Str [])) = Inr addr
            \<and> ((\<exists>e. peek (stack st) 1 = Inl e)
               \<or> (\<exists>tos e. peek (stack st) 1 = Inr tos
                    \<and> cmp tos (read E (sheet st) addr (Str [])) = Inl e)))"
  shows "compare_with cmp E st =
     bind_err (peek (stack st) 2) (\<lambda>x.
     bind_err (peek (stack st) 1) (\<lambda>y.
     bind_err (cmp x y) (\<lambda>b. Inr (False, st\<lparr>cond := b\<rparr>))))"
  using assms by (auto simp: compare_with_def Let_def)

lemma compare_with_only_flag:
  assumes "compare_with cmp E st = Inr (j, st')"
  shows "\<not> j \<and> st' = st\<lparr>cond := cond st'\<rparr>"
  using assms
  by (auto simp: compare_with_def Let_def bind_err_def split: sum.splits)

lemma resolution_failure_propagates:
  assumes "arg1_address E st = Inl e"
  shows "do_LOAD_CELL E st = Inl e \<and> do_STORE_CELL E st = Inl e
       \<and> do_JUMP E st = Inl e \<and> do_CALL E st = Inl e"
  using assms by (simp add: do_LOAD_CELL_def do_STORE_CELL_def do_JUMP_def do_CALL_def)

lemma run_handler_error:
  assumes "read E (sheet st) (ip st) (Str ''HALT'') = Str name" and "name \<noteq> ''HALT''"
    and "getattr_do (upper name) = Some m" and "m E st = Inl e"
  shows "run E (Suc fuel) st = Some (Inl e)"
  using step_dispatch [OF assms(1-3)] assms(4) by simp

text \<open>
  C6, as the code has it. \<open>COMPARE\<close>, \<open>LT\<close> and \<open>GT\<close> are one handler with the
  operator \<open>==\<close>, \<open><\<close> or \<open>>\<close>. Once argument 1 is read: if it resolves to an
  address, \<open>peek(1)\<close> gives the top value and the comparison of the top value with the
  value read there gives a truth value, that is the new flag. If the resolution fails,
  or \<open>peek(1)\<close> fails, or the comparison itself raises (a number against a string
  under \<open><\<close> or \<open>>\<close>), the handler is the comparison of the second value from the top
  with the top value, whose own errors end the run. A handler that returns has changed
  the flag only. The handlers \<open>LOAD_CELL\<close>, \<open>STORE_CELL\<close>, \<open>JUMP\<close> and \<open>CALL\<close> fail with
  the error of a failed resolution, and an error of a handler ends the run.
\<close>

theorem compare_fallback:
  assumes "argument (ip st) 1 = Inr a"
  shows "do_COMPARE E st = compare_with (\<lambda>x y. Inr (py_eq x y)) E st
       \<and> do_LT E st = compare_with py_lt E st
       \<and> do_GT E st = compare_with py_gt E st
       \<and> (\<forall>cmp addr tos b.
            a1_to_index (read E (sheet st) a (Str [])) = Inr addr
            \<and> peek (stack st) 1 = Inr tos
            \<and> cmp tos (read E (sheet st) addr (Str [])) = Inr b
            \<longrightarrow> tos = last (svalues (stack st))
              \<and> compare_with cmp E st = Inr (False, st\<lparr>cond := b\<rparr>))
       \<and> (\<forall>cmp.
            ((\<exists>e. a1_to_index (read E (sheet st) a (Str [])) = Inl e)
             \<or> (\<exists>addr. a1_to_index (read E (sheet st) a (Str [])) = Inr addr
                  \<and> ((\<exists>e. peek (stack st) 1 = Inl e)
                     \<or> (\<exists>tos e. peek (stack st) 1 = Inr tos
                          \<and> cmp tos (read E (sheet st) addr (Str [])) = Inl e))))
            \<longrightarrow> compare_with cmp E st =
                  bind_err (peek (stack st) 2) (\<lambda>x.
                  bind_err (peek (stack st) 1) (\<lambda>y.
                  bind_err (cmp x y) (\<lambda>b. Inr (False, st\<lparr>cond := b\<rparr>)))))
       \<and> (\<forall>x. peek (stack st) 2 = Inr x \<longrightarrow> x = last (butlast (svalues (stack st))))
       \<and> (\<forall>cmp j st'. compare_with cmp E st = Inr (j, st') \<longrightarrow>
            \<not> j \<and> st' = st\<lparr>cond := cond st'\<rparr>)
       \<and> (\<forall>e. arg1_address E st = Inl e \<longrightarrow>
            do_LOAD_CELL E st = Inl e \<and> do_STORE_CELL E st = Inl e
            \<and> do_JUMP E st = Inl e \<and> do_CALL E st = Inl e)
       \<and> (\<forall>name m e fuel.
            read E (sheet st) (ip st) (Str ''HALT'') = Str name \<and> name \<noteq> ''HALT''
            \<and> getattr_do (upper name) = Some m \<and> m E st = Inl e
            \<longrightarrow> run E (Suc fuel) st = Some (Inl e))"
proof -
  have h: "do_COMPARE E st = compare_with (\<lambda>x y. Inr (py_eq x y)) E st"
      "do_LT E st = compare_with py_lt E st" "do_GT E st = compare_with py_gt E st"
    by (simp_all add: do_COMPARE_def do_LT_def do_GT_def)
  have s: "\<forall>cmp addr tos b.
            a1_to_index (read E (sheet st) a (Str [])) = Inr addr
            \<and> peek (stack st) 1 = Inr tos
            \<and> cmp tos (read E (sheet st) addr (Str [])) = Inr b
            \<longrightarrow> tos = last (svalues (stack st))
              \<and> compare_with cmp E st = Inr (False, st\<lparr>cond := b\<rparr>)"
    using compare_with_success [OF assms] peek_top by blast
  have f: "\<forall>cmp.
            ((\<exists>e. a1_to_index (read E (sheet st) a (Str [])) = Inl e)
             \<or> (\<exists>addr. a1_to_index (read E (sheet st) a (Str [])) = Inr addr
                  \<and> ((\<exists>e. peek (stack st) 1 = Inl e)
                     \<or> (\<exists>tos e. peek (stack st) 1 = Inr tos
                          \<and> cmp tos (read E (sheet st) addr (Str [])) = Inl e))))
            \<longrightarrow> compare_with cmp E st =
                  bind_err (peek (stack st) 2) (\<lambda>x.
                  bind_err (peek (stack st) 1) (\<lambda>y.
                  bind_err (cmp x y) (\<lambda>b. Inr (False, st\<lparr>cond := b\<rparr>))))"
    using compare_with_fallback [OF assms] by blast
  have p: "\<forall>x. peek (stack st) 2 = Inr x \<longrightarrow> x = last (butlast (svalues (stack st)))"
    using peek_second by blast
  have o: "\<forall>cmp j st'. compare_with cmp E st = Inr (j, st') \<longrightarrow>
            \<not> j \<and> st' = st\<lparr>cond := cond st'\<rparr>"
    using compare_with_only_flag by blast
  have r: "\<forall>e. arg1_address E st = Inl e \<longrightarrow>
            do_LOAD_CELL E st = Inl e \<and> do_STORE_CELL E st = Inl e
            \<and> do_JUMP E st = Inl e \<and> do_CALL E st = Inl e"
    using resolution_failure_propagates by blast
  have t: "\<forall>name m e fuel.
            read E (sheet st) (ip st) (Str ''HALT'') = Str name \<and> name \<noteq> ''HALT''
            \<and> getattr_do (upper name) = Some m \<and> m E st = Inl e
            \<longrightarrow> run E (Suc fuel) st = Some (Inl e)"
    using run_handler_error by blast
  from h s f p o r t show ?thesis by (intro conjI)
qed

theorem compare_fallback_witness:
  "argument (ip (compare_state ''LT'' ''B5'' ''abc'')) 1 = Inr (2, 1)
   \<and> do_LT sample_env (compare_state ''LT'' ''B5'' ''abc'') =
       Inr (False, (compare_state ''LT'' ''B5'' ''abc'')\<lparr>cond := True\<rparr>)
   \<and> do_COMPARE sample_env (compare_state ''COMPARE'' ''B5'' ''2'') =
       Inr (False, (compare_state ''COMPARE'' ''B5'' ''2'')\<lparr>cond := True\<rparr>)
   \<and> do_GT sample_env (compare_state ''GT'' ''7'' ''2'') =
       Inr (False, (compare_state ''GT'' ''7'' ''2'')\<lparr>cond := False\<rparr>)"
proof -
  let ?L = "compare_state ''LT'' ''B5'' ''abc''"
  let ?C = "compare_state ''COMPARE'' ''B5'' ''2''"
  let ?G = "compare_state ''GT'' ''7'' ''2''"
  have arg: "\<And>x y z. argument (ip (compare_state x y z)) 1 = Inr (2, 1)"
    by (simp add: compare_state_def with_stack_def interpreter_def argument_def)
  have pk: "\<And>x y z. peek (stack (compare_state x y z)) 1 = Inr (Num 2)"
      "\<And>x y z. peek (stack (compare_state x y z)) 2 = Inr (Num 1)"
    by (simp_all add: compare_state_def with_stack_def peek_def)
  have l1: "a1_to_index (read sample_env (sheet ?L) (2, 1) (Str [])) = Inr (2, 5)"
    by code_simp
  have l2: "py_lt (Num 2) (read sample_env (sheet ?L) (2, 5) (Str [])) = Inl TypeError"
    by code_simp
  have l3: "py_lt (Num 1) (Num 2) = Inr True"
    by (simp add: py_lt_def)
  have "do_LT sample_env ?L =
      bind_err (peek (stack ?L) 2) (\<lambda>x.
      bind_err (peek (stack ?L) 1) (\<lambda>y.
      bind_err (py_lt x y) (\<lambda>b. Inr (False, ?L\<lparr>cond := b\<rparr>))))"
    using compare_fallback [where E = sample_env and st = "?L", OF arg] l1 l2 pk(1)
    by simp
  then have L: "do_LT sample_env ?L = Inr (False, ?L\<lparr>cond := True\<rparr>)"
    unfolding pk bind_err_simps l3 .
  have c1: "a1_to_index (read sample_env (sheet ?C) (2, 1) (Str [])) = Inr (2, 5)"
    by code_simp
  have c2: "py_eq (Num 2) (read sample_env (sheet ?C) (2, 5) (Str [])) = True"
    by code_simp
  have C: "do_COMPARE sample_env ?C = Inr (False, ?C\<lparr>cond := True\<rparr>)"
    using compare_fallback [where E = sample_env and st = "?C", OF arg] c1 c2 pk(1)
    by simp
  have g1: "a1_to_index (read sample_env (sheet ?G) (2, 1) (Str [])) = Inl TypeError"
    by code_simp
  have g3: "py_gt (Num 1) (Num 2) = Inr False"
    by (simp add: py_gt_def)
  have "do_GT sample_env ?G =
      bind_err (peek (stack ?G) 2) (\<lambda>x.
      bind_err (peek (stack ?G) 1) (\<lambda>y.
      bind_err (py_gt x y) (\<lambda>b. Inr (False, ?G\<lparr>cond := b\<rparr>))))"
    using compare_fallback [where E = sample_env and st = "?G", OF arg] g1
    by simp
  then have G: "do_GT sample_env ?G = Inr (False, ?G\<lparr>cond := False\<rparr>)"
    unfolding pk bind_err_simps g3 .
  from arg L C G show ?thesis by simp
qed

text \<open>
  C6 as the claim states it fails for \<^verbatim>\<open>LT B5\<close> over the stack \<^verbatim>\<open>[1.0, 2.0]\<close> when
  B5 holds the text \<^verbatim>\<open>abc\<close>: the resolution of the operand succeeds and the cell is
  read, but \<^verbatim>\<open>2.0 < "abc"\<close> raises \<open>TypeError\<close>. As claimed, a flag set from that
  comparison, with every other error ending the run, gives \<open>TypeError\<close>; the code
  catches it and sets the flag from \<^verbatim>\<open>1.0 < 2.0\<close>.
\<close>

theorem lt_swallows_type_error:
  "a1_to_index (read sample_env (sheet (compare_state ''LT'' ''B5'' ''abc'')) (2, 1) (Str []))
     = Inr (2, 5)
   \<and> read sample_env (sheet (compare_state ''LT'' ''B5'' ''abc'')) (2, 5) (Str []) = Str ''abc''
   \<and> peek (stack (compare_state ''LT'' ''B5'' ''abc'')) 1 = Inr (Num 2)
   \<and> py_lt (Num 2) (Str ''abc'') = Inl TypeError
   \<and> outcome (compare_with_as_claimed py_lt sample_env (compare_state ''LT'' ''B5'' ''abc''))
       = Inl TypeError
   \<and> outcome (do_LT sample_env (compare_state ''LT'' ''B5'' ''abc''))
       = Inr (False, True, [Num 1, Num 2])"
  by code_simp

end
